theory Spec2Isabelle
  imports Complex_Main
begin

section \<open>Errors and results\<close>

text \<open>
  Every \<^verbatim>\<open>raise\<close> of the source is a value of \<open>error\<close>. The interpreter raises
  \<^verbatim>\<open>RuntimeError\<close> with a message; each message is one constructor here, carrying the
  values the message interpolates. The remaining constructors are the built-in Python
  exceptions that the code can provoke (a missing dictionary key, a list index out of
  range, \<^verbatim>\<open>list.index\<close> on a missing element, \<^verbatim>\<open>.get\<close> on a non-dictionary, an
  operator on operands of the wrong type, a division by zero).
\<close>

datatype error =
    UndefinedVariable string       \<comment> \<open>"Undefined variable: NAME"\<close>
  | CannotMoveOffGrid int int      \<comment> \<open>"Cannot move: agent would move off grid at (X, Y)"\<close>
  | UnknownStatementType string    \<comment> \<open>"Unknown statement type: T"\<close>
  | CannotAssignConstant string    \<comment> \<open>"Cannot assign to constant: NAME"\<close>
  | InfiniteLoopDetected           \<comment> \<open>"Infinite loop detected (exceeded 10000 iterations)"\<close>
  | GridNotInitialized             \<comment> \<open>"Grid not initialized. Missing grid() declaration?"\<close>
  | UnknownAction string           \<comment> \<open>"Unknown action: A"\<close>
  | CannotCallSense                \<comment> \<open>"Cannot call sense: grid not initialized"\<close>
  | DirtNotValidIdentifier         \<comment> \<open>"'dirt' is not a valid identifier"\<close>
  | UnknownExpressionType string   \<comment> \<open>"Unknown expression type: T"\<close>
  | DivisionByZero                 \<comment> \<open>"Division by zero"\<close>
  | UnknownOperator string         \<comment> \<open>"Unknown operator: OP"\<close>
  | KeyError
  | IndexError
  | ValueError
  | AttributeError
  | TypeError
  | ZeroDivisionError

text \<open>
  A method that mutates its object returns \<open>Inr s'\<close> with the object after the call, or
  \<open>Inl (e, s')\<close> when it raises \<open>e\<close>, with the object as the raise leaves it.
\<close>

type_synonym 's outcome = "(error \<times> 's) + 's"

definition state_after :: "'s outcome \<Rightarrow> 's" where
  "state_after r = (case r of Inl (e, s) \<Rightarrow> s | Inr s \<Rightarrow> s)"

definition and_then :: "'s outcome \<Rightarrow> ('s \<Rightarrow> 's outcome) \<Rightarrow> 's outcome" where
  "and_then r f = (case r of Inl es \<Rightarrow> Inl es | Inr s \<Rightarrow> f s)"

section \<open>The grid world (interpreter.py, class GridWorld)\<close>

record GridWorld =
  width :: int
  height :: int
  agent_x :: int
  agent_y :: int
  agent_direction :: string
  dirt :: "(int \<times> int) set"

definition DIRECTIONS :: "string list" where
  "DIRECTIONS = [''north'', ''east'', ''south'', ''west'']"

text \<open>\<^verbatim>\<open>GridWorld.__init__\<close>: the three dirt cells are added whatever the dimensions are.\<close>

definition GridWorld_init :: "int \<Rightarrow> int \<Rightarrow> GridWorld" where
  "GridWorld_init w h =
     \<lparr>width = w, height = h, agent_x = 0, agent_y = 0, agent_direction = ''north'',
      dirt = insert (1, 3) (insert (3, 1) (insert (2, 2) {}))\<rparr>"

text \<open>\<^verbatim>\<open>GridWorld.move\<close>: the bounds check comes before the only assignment.\<close>

definition move :: "GridWorld \<Rightarrow> GridWorld outcome" where
  "move g =
     (let (new_x, new_y) =
            (if agent_direction g = ''north'' then (agent_x g, agent_y g - 1)
             else if agent_direction g = ''south'' then (agent_x g, agent_y g + 1)
             else if agent_direction g = ''east'' then (agent_x g + 1, agent_y g)
             else if agent_direction g = ''west'' then (agent_x g - 1, agent_y g)
             else (agent_x g, agent_y g))
      in if 0 \<le> new_x \<and> new_x < width g \<and> 0 \<le> new_y \<and> new_y < height g
         then Inr (g\<lparr>agent_x := new_x, agent_y := new_y\<rparr>)
         else Inl (CannotMoveOffGrid new_x new_y, g))"

text \<open>\<^verbatim>\<open>list.index\<close>: the first position of the element, \<^verbatim>\<open>ValueError\<close> when absent.\<close>

fun index_of :: "'a list \<Rightarrow> 'a \<Rightarrow> error + int" where
  "index_of [] x = Inl ValueError"
| "index_of (y # ys) x =
     (if y = x then Inr 0
      else (case index_of ys x of Inl e \<Rightarrow> Inl e | Inr i \<Rightarrow> Inr (i + 1)))"

text \<open>
  \<^verbatim>\<open>turn_left\<close> and \<open>turn_right\<close>: Python's \<^verbatim>\<open>%\<close> on integers is the floored
  remainder, as \<open>mod\<close> on \<open>int\<close> is, so \<^verbatim>\<open>(0 - 1) % 4\<close> is 3.
\<close>

definition turn_left :: "GridWorld \<Rightarrow> GridWorld outcome" where
  "turn_left g =
     (case index_of DIRECTIONS (agent_direction g) of
        Inl e \<Rightarrow> Inl (e, g)
      | Inr idx \<Rightarrow> Inr (g\<lparr>agent_direction := DIRECTIONS ! nat ((idx - 1) mod 4)\<rparr>))"

definition turn_right :: "GridWorld \<Rightarrow> GridWorld outcome" where
  "turn_right g =
     (case index_of DIRECTIONS (agent_direction g) of
        Inl e \<Rightarrow> Inl (e, g)
      | Inr idx \<Rightarrow> Inr (g\<lparr>agent_direction := DIRECTIONS ! nat ((idx + 1) mod 4)\<rparr>))"

definition clean :: "GridWorld \<Rightarrow> GridWorld" where
  "clean g =
     (let pos = (agent_x g, agent_y g)
      in if pos \<in> dirt g then g\<lparr>dirt := dirt g - {pos}\<rparr> else g)"

definition sense :: "GridWorld \<Rightarrow> bool" where
  "sense g = ((agent_x g, agent_y g) \<in> dirt g)"

subsection \<open>Sequences of grid operations\<close>

text \<open>
  A caller that issues the five operations one after the other and goes on after a
  failed one: the grid after a call is the grid the call leaves, raised or not.
\<close>

datatype grid_op = Move | TurnLeft | TurnRight | Clean | Sense

fun apply_op :: "grid_op \<Rightarrow> GridWorld \<Rightarrow> GridWorld" where
  "apply_op Move g = state_after (move g)"
| "apply_op TurnLeft g = state_after (turn_left g)"
| "apply_op TurnRight g = state_after (turn_right g)"
| "apply_op Clean g = clean g"
| "apply_op Sense g = (let r = sense g in g)"

fun run_ops :: "grid_op list \<Rightarrow> GridWorld \<Rightarrow> GridWorld" where
  "run_ops [] g = g"
| "run_ops (p # ps) g = run_ops ps (apply_op p g)"

text \<open>The cell one step ahead of a cell, for each of the four facings, and the grid's cells.\<close>

definition cell_ahead :: "string \<Rightarrow> int \<times> int \<Rightarrow> int \<times> int" where
  "cell_ahead d c =
     (if d = ''north'' then (fst c, snd c - 1)
      else if d = ''south'' then (fst c, snd c + 1)
      else if d = ''east'' then (fst c + 1, snd c)
      else (fst c - 1, snd c))"

definition in_grid :: "GridWorld \<Rightarrow> int \<times> int \<Rightarrow> bool" where
  "in_grid g c = (0 \<le> fst c \<and> fst c < width g \<and> 0 \<le> snd c \<and> snd c < height g)"

definition agent_pos :: "GridWorld \<Rightarrow> int \<times> int" where
  "agent_pos g = (agent_x g, agent_y g)"

section \<open>The interpreter (interpreter.py)\<close>

subsection \<open>Values, expressions and statements\<close>

text \<open>
  The values the converter puts into literals and the interpreter computes: Python
  integers (unbounded), booleans, strings and \<^verbatim>\<open>None\<close>.

  An AST node is a dictionary with a "type" entry. \<open>NoExpr\<close> and \<open>NoStmt\<close> stand for
  \<^verbatim>\<open>None\<close> in the place of a node, \<open>BlockList\<close> for the Python list that the converter
  returns for a nested block, \<open>OtherExpr\<close> and \<open>OtherStmt\<close> for a dictionary of any other
  type. The "alternate" of an \<open>IfStmt\<close> is \<^verbatim>\<open>None\<close> or a list.
\<close>

datatype pyval = VInt int | VBool bool | VStr string | VNone

datatype expr =
    Literal pyval
  | Identifier string
  | BinaryExpr string expr expr
  | OtherExpr string
  | NoExpr

datatype stmt =
    VarDecl string string expr
  | ConstDecl string string expr
  | Assign string expr
  | IfStmt expr "stmt list" "stmt list option"
  | WhileStmt expr "stmt list"
  | ActionStmt string
  | OtherStmt string
  | BlockList "stmt list"
  | NoStmt

subsection \<open>Runtime environment (class Environment)\<close>

datatype Environment = Environment (vars: "string \<rightharpoonup> pyval") (parent: "Environment option")

fun Environment_define :: "Environment \<Rightarrow> string \<Rightarrow> pyval \<Rightarrow> Environment" where
  "Environment_define (Environment vs p) name v = Environment (vs(name \<mapsto> v)) p"

fun Environment_get :: "Environment \<Rightarrow> string \<Rightarrow> error + pyval" where
  "Environment_get (Environment vs p) name =
     (case vs name of
        Some v \<Rightarrow> Inr v
      | None \<Rightarrow>
          (case p of
             Some pe \<Rightarrow> Environment_get pe name
           | None \<Rightarrow> Inl (UndefinedVariable name)))"

fun Environment_set :: "Environment \<Rightarrow> string \<Rightarrow> pyval \<Rightarrow> error + Environment" where
  "Environment_set (Environment vs p) name v =
     (if vs name \<noteq> None then Inr (Environment (vs(name \<mapsto> v)) p)
      else (case p of
              Some pe \<Rightarrow>
                (case Environment_set pe name v of
                   Inl e \<Rightarrow> Inl e
                 | Inr pe' \<Rightarrow> Inr (Environment vs (Some pe')))
            | None \<Rightarrow> Inl (UndefinedVariable name)))"

text \<open>
  The state of an \<^verbatim>\<open>Interpreter\<close> object that execution reads and writes. The \<^verbatim>\<open>ast\<close> is
  passed to the functions, \<^verbatim>\<open>verbose\<close> only prints.
\<close>

record Interpreter =
  env :: Environment
  grid :: "GridWorld option"
  const_vars :: "string set"


subsection \<open>Python values and operators\<close>

text \<open>
  Truth value testing, and the numeric reading of a value: \<^verbatim>\<open>bool\<close> is a subclass of
  \<^verbatim>\<open>int\<close>, so \<^verbatim>\<open>True\<close> counts as 1 and \<^verbatim>\<open>False\<close> as 0 in arithmetic and comparisons.
  Strings compare by code point, lexicographically. An operator on operands it does
  not support raises \<^verbatim>\<open>TypeError\<close>.
\<close>

fun truthy :: "pyval \<Rightarrow> bool" where
  "truthy (VInt i) = (i \<noteq> 0)"
| "truthy (VBool b) = b"
| "truthy (VStr s) = (s \<noteq> [])"
| "truthy VNone = False"

fun as_num :: "pyval \<Rightarrow> int option" where
  "as_num (VInt i) = Some i"
| "as_num (VBool b) = Some (if b then 1 else 0)"
| "as_num (VStr s) = None"
| "as_num VNone = None"

fun str_less :: "string \<Rightarrow> string \<Rightarrow> bool" where
  "str_less [] [] = False"
| "str_less [] (y # ys) = True"
| "str_less (x # xs) [] = False"
| "str_less (x # xs) (y # ys) =
     (if x = y then str_less xs ys else (of_char x :: nat) < of_char y)"

definition py_eq :: "pyval \<Rightarrow> pyval \<Rightarrow> bool" where
  "py_eq a b =
     (case (as_num a, as_num b) of
        (Some x, Some y) \<Rightarrow> x = y
      | _ \<Rightarrow> (case (a, b) of
                (VStr s, VStr t) \<Rightarrow> s = t
              | (VNone, VNone) \<Rightarrow> True
              | _ \<Rightarrow> False))"

definition py_compare ::
  "(int \<Rightarrow> int \<Rightarrow> bool) \<Rightarrow> (string \<Rightarrow> string \<Rightarrow> bool) \<Rightarrow> pyval \<Rightarrow> pyval \<Rightarrow> error + pyval" where
  "py_compare on_int on_str a b =
     (case (as_num a, as_num b) of
        (Some x, Some y) \<Rightarrow> Inr (VBool (on_int x y))
      | _ \<Rightarrow> (case (a, b) of
                (VStr s, VStr t) \<Rightarrow> Inr (VBool (on_str s t))
              | _ \<Rightarrow> Inl TypeError))"

definition py_add :: "pyval \<Rightarrow> pyval \<Rightarrow> error + pyval" where
  "py_add a b =
     (case (as_num a, as_num b) of
        (Some x, Some y) \<Rightarrow> Inr (VInt (x + y))
      | _ \<Rightarrow> (case (a, b) of
                (VStr s, VStr t) \<Rightarrow> Inr (VStr (s @ t))
              | _ \<Rightarrow> Inl TypeError))"

definition py_sub :: "pyval \<Rightarrow> pyval \<Rightarrow> error + pyval" where
  "py_sub a b =
     (case (as_num a, as_num b) of
        (Some x, Some y) \<Rightarrow> Inr (VInt (x - y))
      | _ \<Rightarrow> Inl TypeError)"

definition py_mul :: "pyval \<Rightarrow> pyval \<Rightarrow> error + pyval" where
  "py_mul a b =
     (case (as_num a, as_num b) of
        (Some x, Some y) \<Rightarrow> Inr (VInt (x * y))
      | (None, Some n) \<Rightarrow>
          (case a of VStr s \<Rightarrow> Inr (VStr (concat (replicate (nat n) s))) | _ \<Rightarrow> Inl TypeError)
      | (Some n, None) \<Rightarrow>
          (case b of VStr s \<Rightarrow> Inr (VStr (concat (replicate (nat n) s))) | _ \<Rightarrow> Inl TypeError)
      | (None, None) \<Rightarrow> Inl TypeError)"

text \<open>Python's \<^verbatim>\<open>//\<close> on integers rounds towards minus infinity, as \<open>div\<close> on \<open>int\<close> does.\<close>

definition py_floordiv :: "pyval \<Rightarrow> pyval \<Rightarrow> error + pyval" where
  "py_floordiv a b =
     (case (as_num a, as_num b) of
        (Some x, Some y) \<Rightarrow> if y = 0 then Inl ZeroDivisionError else Inr (VInt (x div y))
      | _ \<Rightarrow> Inl TypeError)"

text \<open>
  The operator dispatch of \<^verbatim>\<open>evaluate_binary_expr\<close>, once both operands have their values.
  \<^verbatim>\<open>and\<close> and \<^verbatim>\<open>or\<close> return one of the operands.
\<close>

definition binary_op :: "string \<Rightarrow> pyval \<Rightarrow> pyval \<Rightarrow> error + pyval" where
  "binary_op operator left right =
     (if operator = ''+'' then py_add left right
      else if operator = ''-'' then py_sub left right
      else if operator = ''*'' then py_mul left right
      else if operator = ''/'' then
        (if py_eq right (VInt 0) then Inl DivisionByZero else py_floordiv left right)
      else if operator = ''=='' then Inr (VBool (py_eq left right))
      else if operator = ''!='' then Inr (VBool (\<not> py_eq left right))
      else if operator = ''<'' then py_compare (\<lambda>x y. x < y) (\<lambda>s t. str_less s t) left right
      else if operator = ''<='' then py_compare (\<lambda>x y. x \<le> y) (\<lambda>s t. \<not> str_less t s) left right
      else if operator = ''>'' then py_compare (\<lambda>x y. x > y) (\<lambda>s t. str_less t s) left right
      else if operator = ''>='' then py_compare (\<lambda>x y. x \<ge> y) (\<lambda>s t. \<not> str_less s t) left right
      else if operator = ''and'' then Inr (if truthy left then right else left)
      else if operator = ''or'' then Inr (if truthy left then left else right)
      else Inl (UnknownOperator operator))"

subsection \<open>Expression evaluation\<close>

fun evaluate_expr :: "Interpreter \<Rightarrow> expr \<Rightarrow> error + pyval"
and evaluate_binary_expr :: "Interpreter \<Rightarrow> expr \<Rightarrow> error + pyval"
where
  "evaluate_expr st NoExpr = Inr VNone"
| "evaluate_expr st (Literal v) = Inr v"
| "evaluate_expr st (Identifier name) =
     (if name = ''sense'' then
        (case grid st of
           Some g \<Rightarrow> Inr (VBool (sense g))
         | None \<Rightarrow> Inl CannotCallSense)
      else if name = ''dirt'' then Inl DirtNotValidIdentifier
      else Environment_get (env st) name)"
| "evaluate_expr st (BinaryExpr operator l r) = evaluate_binary_expr st (BinaryExpr operator l r)"
| "evaluate_expr st (OtherExpr t) = Inl (UnknownExpressionType t)"
| "evaluate_binary_expr st (BinaryExpr operator l r) =
     (if operator = ''not'' then
        (case evaluate_expr st l of
           Inl e \<Rightarrow> Inl e
         | Inr right \<Rightarrow> Inr (VBool (\<not> truthy right)))
      else
        (case evaluate_expr st l of
           Inl e \<Rightarrow> Inl e
         | Inr left \<Rightarrow>
             (case evaluate_expr st r of
                Inl e \<Rightarrow> Inl e
              | Inr right \<Rightarrow> binary_op operator left right)))"
| "evaluate_binary_expr st NoExpr = Inl TypeError"
| "evaluate_binary_expr st (Literal v) = Inl KeyError"
| "evaluate_binary_expr st (Identifier name) = Inl KeyError"
| "evaluate_binary_expr st (OtherExpr t) = Inl KeyError"

subsection \<open>Statement execution\<close>

definition execute_var_decl :: "string \<Rightarrow> string \<Rightarrow> expr \<Rightarrow> Interpreter \<Rightarrow> Interpreter outcome" where
  "execute_var_decl name var_type init_value st =
     (case (if init_value \<noteq> NoExpr then evaluate_expr st init_value
            else if var_type = ''int'' then Inr (VInt 0)
            else if var_type = ''bool'' then Inr (VBool False)
            else if var_type = ''direction'' then Inr (VStr ''north'')
            else Inr VNone) of
        Inl e \<Rightarrow> Inl (e, st)
      | Inr v \<Rightarrow> Inr (st\<lparr>env := Environment_define (env st) name v\<rparr>))"

definition execute_const_decl :: "string \<Rightarrow> string \<Rightarrow> expr \<Rightarrow> Interpreter \<Rightarrow> Interpreter outcome" where
  "execute_const_decl name var_type value_expr st =
     (case evaluate_expr st value_expr of
        Inl e \<Rightarrow> Inl (e, st)
      | Inr v \<Rightarrow>
          Inr (st\<lparr>env := Environment_define (env st) name v,
                  const_vars := insert name (const_vars st)\<rparr>))"

definition execute_assign :: "string \<Rightarrow> expr \<Rightarrow> Interpreter \<Rightarrow> Interpreter outcome" where
  "execute_assign name value_expr st =
     (if name \<in> const_vars st then Inl (CannotAssignConstant name, st)
      else (case evaluate_expr st value_expr of
              Inl e \<Rightarrow> Inl (e, st)
            | Inr v \<Rightarrow>
                (case Environment_set (env st) name v of
                   Inl e \<Rightarrow> Inl (e, st)
                 | Inr env' \<Rightarrow> Inr (st\<lparr>env := env'\<rparr>))))"

text \<open>A grid method called on \<^verbatim>\<open>self.grid\<close>: the grid it leaves is the interpreter's grid.\<close>

definition on_grid :: "Interpreter \<Rightarrow> GridWorld outcome \<Rightarrow> Interpreter outcome" where
  "on_grid st r =
     (case r of
        Inl (e, g') \<Rightarrow> Inl (e, st\<lparr>grid := Some g'\<rparr>)
      | Inr g' \<Rightarrow> Inr (st\<lparr>grid := Some g'\<rparr>))"

definition execute_action :: "string \<Rightarrow> Interpreter \<Rightarrow> Interpreter outcome" where
  "execute_action action st =
     (case grid st of
        None \<Rightarrow> Inl (GridNotInitialized, st)
      | Some g \<Rightarrow>
          if action = ''move'' then on_grid st (move g)
          else if action = ''turnLeft'' then on_grid st (turn_left g)
          else if action = ''turnRight'' then on_grid st (turn_right g)
          else if action = ''clean'' then Inr (st\<lparr>grid := Some (clean g)\<rparr>)
          else if action = ''sense'' then (let result = sense g in Inr st)
          else Inl (UnknownAction action, st))"

definition max_iterations :: int where
  "max_iterations = 10000"

text \<open>
  \<^verbatim>\<open>execute_while\<close>: the counter starts at 0, then the loop. \<open>while_loop\<close> is the loop from
  its test on: \<open>iteration\<close> is the counter before the test, \<open>body\<close> runs the statements of
  the loop body. The counter is incremented and compared with the limit before the body
  runs.
\<close>

function while_loop ::
  "(Interpreter \<Rightarrow> Interpreter outcome) \<Rightarrow> expr \<Rightarrow> int \<Rightarrow> Interpreter \<Rightarrow> Interpreter outcome"
where
  "while_loop body test iteration st =
     (case evaluate_expr st test of
        Inl e \<Rightarrow> Inl (e, st)
      | Inr c \<Rightarrow>
          if truthy c then
            (let iteration' = iteration + 1
             in if iteration' > max_iterations then Inl (InfiniteLoopDetected, st)
                else (case body st of
                        Inl es \<Rightarrow> Inl es
                      | Inr st' \<Rightarrow> while_loop body test iteration' st'))
          else Inr st)"
  by pat_completeness auto
termination
  by (relation "measure (\<lambda>(body, test, iteration, st). nat (max_iterations - iteration))") auto

declare while_loop.simps [simp del]

definition execute_while ::
  "(Interpreter \<Rightarrow> Interpreter outcome) \<Rightarrow> expr \<Rightarrow> Interpreter \<Rightarrow> Interpreter outcome" where
  "execute_while body test st = while_loop body test 0 st"

text \<open>
  \<^verbatim>\<open>execute_stmt\<close> dispatches on the type of the statement; the equation for \<open>IfStmt\<close> is
  \<^verbatim>\<open>execute_if\<close>, and \<open>execute_stmts\<close> is the loop \<^verbatim>\<open>for s in ...: self.execute_stmt(s)\<close>
  of \<^verbatim>\<open>execute_if\<close>, \<^verbatim>\<open>execute_while\<close> and \<^verbatim>\<open>run\<close>, which an exception leaves.
\<close>

fun execute_stmt :: "stmt \<Rightarrow> Interpreter \<Rightarrow> Interpreter outcome"
and execute_stmts :: "stmt list \<Rightarrow> Interpreter \<Rightarrow> Interpreter outcome"
where
  "execute_stmt (VarDecl name var_type init_value) st = execute_var_decl name var_type init_value st"
| "execute_stmt (ConstDecl name var_type value_expr) st = execute_const_decl name var_type value_expr st"
| "execute_stmt (Assign name value_expr) st = execute_assign name value_expr st"
| "execute_stmt (IfStmt test consequent alternate) st =
     (case evaluate_expr st test of
        Inl e \<Rightarrow> Inl (e, st)
      | Inr condition \<Rightarrow>
          if truthy condition then execute_stmts consequent st
          else (case alternate of
                  Some alt \<Rightarrow> if alt \<noteq> [] then execute_stmts alt st else Inr st
                | None \<Rightarrow> Inr st))"
| "execute_stmt (WhileStmt test body) st =
     execute_while (\<lambda>s. execute_stmts body s) test st"
| "execute_stmt (ActionStmt action) st = execute_action action st"
| "execute_stmt (OtherStmt t) st = Inl (UnknownStatementType t, st)"
| "execute_stmt (BlockList ss) st = Inl (AttributeError, st)"
| "execute_stmt NoStmt st = Inl (AttributeError, st)"
| "execute_stmts [] st = Inr st"
| "execute_stmts (s # ss) st =
     (case execute_stmt s st of
        Inl es \<Rightarrow> Inl es
      | Inr st' \<Rightarrow> execute_stmts ss st')"

text \<open>\<^verbatim>\<open>Interpreter.__init__\<close>, and \<^verbatim>\<open>run\<close>: the statements of the program body in order.\<close>

definition Interpreter_init :: Interpreter where
  "Interpreter_init = \<lparr>env = Environment Map.empty None, grid = None, const_vars = {}\<rparr>"

definition run :: "stmt list \<Rightarrow> Interpreter \<Rightarrow> Interpreter outcome" where
  "run body st = execute_stmts body st"

section \<open>The converter from CST to AST (cst.py, converter.py)\<close>

text \<open>
  A \<^verbatim>\<open>CSTNode\<close> has a type, an optional value and a list of children. The converter reads
  the dictionary that \<^verbatim>\<open>to_dict\<close> makes of it, which has the key "value" when the value is
  not \<^verbatim>\<open>None\<close> and the key "children" when the list is not empty. So
  \<^verbatim>\<open>node["children"][i]\<close> raises \<^verbatim>\<open>KeyError\<close> on a node without children and
  \<^verbatim>\<open>IndexError\<close> when \<open>i\<close> is past the end, \<^verbatim>\<open>node["value"]\<close> raises \<^verbatim>\<open>KeyError\<close> when there
  is no value, and \<^verbatim>\<open>node.get("children")\<close> is true exactly when there are children.
\<close>

datatype cst = CSTNode (node_type: string) (node_value: "string option") (children: "cst list")

definition child :: "cst \<Rightarrow> nat \<Rightarrow> error + cst" where
  "child node i =
     (if children node = [] then Inl KeyError
      else if i < length (children node) then Inr (children node ! i)
      else Inl IndexError)"

definition value_of :: "cst \<Rightarrow> error + string" where
  "value_of node = (case node_value node of None \<Rightarrow> Inl KeyError | Some v \<Rightarrow> Inr v)"

text \<open>
  \<^verbatim>\<open>str.isdigit\<close> and \<^verbatim>\<open>int\<close> on the decimal digits, the only digits an
  \<^verbatim>\<open>INT_LITERAL\<close> token of ASCII source text holds.
\<close>

definition isdigit :: "string \<Rightarrow> bool" where
  "isdigit s = (s \<noteq> [] \<and> list_all (\<lambda>c. c \<in> set ''0123456789'') s)"

definition int_of_str :: "string \<Rightarrow> int" where
  "int_of_str s = foldl (\<lambda>acc c. 10 * acc + (int (of_char c) - 48)) 0 s"

definition literal_value :: "string \<Rightarrow> pyval" where
  "literal_value val =
     (if isdigit val then VInt (int_of_str val)
      else if val = ''true'' \<or> val = ''false'' then VBool (val = ''true'')
      else VStr val)"

lemma size_list_nth: "i < length cs \<Longrightarrow> size (cs ! i) < Suc (size_list size cs)"
  by (metis le_imp_less_Suc nth_mem order_refl size_list_estimation')

lemma child_size: "child node i = Inr c \<Longrightarrow> size c < size node"
  by (cases node) (auto simp: child_def size_list_nth split: if_splits)

text \<open>
  \<^verbatim>\<open>flatten_expression\<close>. The first part is the \<^verbatim>\<open>FACTOR\<close> base case; it yields \<open>None\<close> when
  the function falls through to the second part, which flattens the first child and
  looks at the second child, the tail, once: the operator is the tail's first child, the
  right operand its second child, and no further child of the tail is read.
\<close>

function flatten_expression :: "cst \<Rightarrow> error + expr" where
  "flatten_expression node =
     (case (if node_type node = ''FACTOR'' then
              (case child node 0 of
                 Inl e \<Rightarrow> Inl e
               | Inr c \<Rightarrow>
                   if node_type c = ''LITERAL'' then
                     (case child c 0 of
                        Inl e \<Rightarrow> Inl e
                      | Inr t \<Rightarrow>
                          (case value_of t of
                             Inl e \<Rightarrow> Inl e
                           | Inr val \<Rightarrow> Inr (Some (Literal (literal_value val)))))
                   else if node_type c = ''TERMINAL'' then
                     (case value_of c of
                        Inl e \<Rightarrow> Inl e
                      | Inr v \<Rightarrow>
                          if v = ''sense'' \<or> v = ''dirt'' then Inr (Some (Identifier v))
                          else if v = ''not'' then
                            (case child node 1 of
                               Inl e \<Rightarrow> Inl e
                             | Inr operand \<Rightarrow>
                                 (case flatten_expression operand of
                                    Inl e \<Rightarrow> Inl e
                                  | Inr l \<Rightarrow> Inr (Some (BinaryExpr ''not'' l NoExpr))))
                          else Inr (Some (Identifier v)))
                   else Inr None)
            else Inr None) of
        Inl e \<Rightarrow> Inl e
      | Inr (Some result) \<Rightarrow> Inr result
      | Inr None \<Rightarrow>
          if children node \<noteq> [] then
            (case child node 0 of
               Inl e \<Rightarrow> Inl e
             | Inr first \<Rightarrow>
                 (case flatten_expression first of
                    Inl e \<Rightarrow> Inl e
                  | Inr left \<Rightarrow>
                      if length (children node) > 1 then
                        (case child node 1 of
                           Inl e \<Rightarrow> Inl e
                         | Inr tail \<Rightarrow>
                             if children tail \<noteq> [] then
                               (case child tail 0 of
                                  Inl e \<Rightarrow> Inl e
                                | Inr op_node \<Rightarrow>
                                    (case child op_node 0 of
                                       Inl e \<Rightarrow> Inl e
                                     | Inr op_terminal \<Rightarrow>
                                         (case value_of op_terminal of
                                            Inl e \<Rightarrow> Inl e
                                          | Inr operator \<Rightarrow>
                                              (case child tail 1 of
                                                 Inl e \<Rightarrow> Inl e
                                               | Inr second \<Rightarrow>
                                                   (case flatten_expression second of
                                                      Inl e \<Rightarrow> Inl e
                                                    | Inr right \<Rightarrow>
                                                        Inr (BinaryExpr operator left right))))))
                             else Inr left)
                      else Inr left))
          else Inr NoExpr)"
  by pat_completeness auto
termination
proof (relation "measure size")
  show "wf (measure size)" by simp
next
  fix node c v operand
  assume "child node 1 = Inr operand"
  then show "(operand, node) \<in> measure size" by (simp add: child_size)
next
  fix node first
  assume "child node 0 = Inr first"
  then show "(first, node) \<in> measure size" by (simp add: child_size)
next
  fix node tail second
  assume "child node 1 = Inr tail" and "child tail 1 = Inr second"
  then have "size second < size tail" and "size tail < size node"
    by (simp_all add: child_size)
  then show "(second, node) \<in> measure size" by simp
qed

declare flatten_expression.simps [simp del]


definition convert_expression :: "cst \<Rightarrow> error + expr" where
  "convert_expression node = flatten_expression node"

definition convert_condition :: "cst \<Rightarrow> error + expr" where
  "convert_condition node =
     (case child node 0 of
        Inl e \<Rightarrow> Inl e
      | Inr first \<Rightarrow>
          (case flatten_expression first of
             Inl e \<Rightarrow> Inl e
           | Inr left \<Rightarrow>
               (case child node 1 of
                  Inl e \<Rightarrow> Inl e
                | Inr tail \<Rightarrow>
                    if children tail \<noteq> [] then
                      (case child tail 0 of
                         Inl e \<Rightarrow> Inl e
                       | Inr op_node \<Rightarrow>
                           (case child op_node 0 of
                              Inl e \<Rightarrow> Inl e
                            | Inr op_terminal \<Rightarrow>
                                (case value_of op_terminal of
                                   Inl e \<Rightarrow> Inl e
                                 | Inr operator \<Rightarrow>
                                     (case child tail 1 of
                                        Inl e \<Rightarrow> Inl e
                                      | Inr second \<Rightarrow>
                                          (case flatten_expression second of
                                             Inl e \<Rightarrow> Inl e
                                           | Inr right \<Rightarrow>
                                               Inr (BinaryExpr operator left right))))))
                    else Inr left)))"

definition child_value :: "cst \<Rightarrow> nat \<Rightarrow> error + string" where
  "child_value node i = (case child node i of Inl e \<Rightarrow> Inl e | Inr c \<Rightarrow> value_of c)"

definition convert_declaration :: "cst \<Rightarrow> error + stmt" where
  "convert_declaration decl_cst =
     (case child_value decl_cst 0 of
        Inl e \<Rightarrow> Inl e
      | Inr first_token \<Rightarrow>
          (case child_value decl_cst 1 of
             Inl e \<Rightarrow> Inl e
           | Inr id_value \<Rightarrow>
               (case child decl_cst 3 of
                  Inl e \<Rightarrow> Inl e
                | Inr type_node \<Rightarrow>
                    (case child_value type_node 0 of
                       Inl e \<Rightarrow> Inl e
                     | Inr var_type \<Rightarrow>
                         if first_token = ''const'' then
                           (case child decl_cst 5 of
                              Inl e \<Rightarrow> Inl e
                            | Inr expr_node \<Rightarrow>
                                (case convert_expression expr_node of
                                   Inl e \<Rightarrow> Inl e
                                 | Inr v \<Rightarrow> Inr (ConstDecl id_value var_type v)))
                         else
                           (case child decl_cst 4 of
                              Inl e \<Rightarrow> Inl e
                            | Inr var_tail \<Rightarrow>
                                if length (children var_tail) > 1 then
                                  (case convert_expression (children var_tail ! 1) of
                                     Inl e \<Rightarrow> Inl e
                                   | Inr init_value \<Rightarrow> Inr (VarDecl id_value var_type init_value))
                                else Inr (VarDecl id_value var_type NoExpr))))))"

definition convert_assignment :: "cst \<Rightarrow> error + stmt" where
  "convert_assignment node =
     (case child_value node 0 of
        Inl e \<Rightarrow> Inl e
      | Inr target_name \<Rightarrow>
          (case child node 2 of
             Inl e \<Rightarrow> Inl e
           | Inr expr_node \<Rightarrow>
               (case convert_expression expr_node of
                  Inl e \<Rightarrow> Inl e
                | Inr v \<Rightarrow> Inr (Assign target_name v))))"

definition convert_action :: "cst \<Rightarrow> error + stmt" where
  "convert_action node =
     (case child_value node 0 of
        Inl e \<Rightarrow> Inl e
      | Inr action_name \<Rightarrow> Inr (ActionStmt action_name))"

text \<open>
  \<^verbatim>\<open>convert_statement\<close> and the converters it dispatches to; \<open>convert_statements\<close> is the
  loop that converts the children of a \<^verbatim>\<open>STATEMENTS\<close> node in order. For a nested
  \<^verbatim>\<open>BLOCK\<close> the dispatch returns the list that \<^verbatim>\<open>convert_block\<close> returns, and for a type
  that is not in its table, \<^verbatim>\<open>None\<close>. In \<^verbatim>\<open>convert_if\<close> the else part is converted before
  the dictionary with the test and the consequent is built.
\<close>

lemma size_children: "size_list size (children node) < size node"
  by (cases node) simp

function convert_statement :: "cst \<Rightarrow> error + stmt"
and convert_if :: "cst \<Rightarrow> error + stmt"
and convert_while :: "cst \<Rightarrow> error + stmt"
and convert_block :: "cst \<Rightarrow> error + stmt list"
and convert_statements :: "cst list \<Rightarrow> error + stmt list"
where
  "convert_statement stmt_cst =
     (if node_type stmt_cst = ''ASSIGNMENT'' then convert_assignment stmt_cst
      else if node_type stmt_cst = ''IF_STATEMENT'' then convert_if stmt_cst
      else if node_type stmt_cst = ''WHILE_STATEMENT'' then convert_while stmt_cst
      else if node_type stmt_cst = ''ACTION'' then convert_action stmt_cst
      else if node_type stmt_cst = ''BLOCK'' then
        (case convert_block stmt_cst of Inl e \<Rightarrow> Inl e | Inr ss \<Rightarrow> Inr (BlockList ss))
      else Inr NoStmt)"
| "convert_if node =
     (case child node 2 of
        Inl e \<Rightarrow> Inl e
      | Inr cond_node \<Rightarrow>
          (case child node 4 of
             Inl e \<Rightarrow> Inl e
           | Inr block_node \<Rightarrow>
               (case child node 5 of
                  Inl e \<Rightarrow> Inl e
                | Inr else_part \<Rightarrow>
                    (case (if children else_part \<noteq> [] then
                             (case child else_part 1 of
                                Inl e \<Rightarrow> Inl e
                              | Inr else_block \<Rightarrow>
                                  (case convert_block else_block of
                                     Inl e \<Rightarrow> Inl e
                                   | Inr ss \<Rightarrow> Inr (Some ss)))
                           else Inr None) of
                       Inl e \<Rightarrow> Inl e
                     | Inr alternate \<Rightarrow>
                         (case convert_condition cond_node of
                            Inl e \<Rightarrow> Inl e
                          | Inr test \<Rightarrow>
                              (case convert_block block_node of
                                 Inl e \<Rightarrow> Inl e
                               | Inr consequent \<Rightarrow> Inr (IfStmt test consequent alternate)))))))"
| "convert_while node =
     (case child node 2 of
        Inl e \<Rightarrow> Inl e
      | Inr cond_node \<Rightarrow>
          (case child node 4 of
             Inl e \<Rightarrow> Inl e
           | Inr block_node \<Rightarrow>
               (case convert_condition cond_node of
                  Inl e \<Rightarrow> Inl e
                | Inr test \<Rightarrow>
                    (case convert_block block_node of
                       Inl e \<Rightarrow> Inl e
                     | Inr body \<Rightarrow> Inr (WhileStmt test body)))))"
| "convert_block node =
     (if length (children node) > 1 then
        (case child node 1 of
           Inl e \<Rightarrow> Inl e
         | Inr stmts_node \<Rightarrow> convert_statements (children stmts_node))
      else Inr [])"
| "convert_statements [] = Inr []"
| "convert_statements (c # cs) =
     (case convert_statement c of
        Inl e \<Rightarrow> Inl e
      | Inr s \<Rightarrow>
          (case convert_statements cs of
             Inl e \<Rightarrow> Inl e
           | Inr ss \<Rightarrow> Inr (s # ss)))"
  by pat_completeness auto
termination
proof (relation "measure (case_sum
    (case_sum (\<lambda>c. 2 * size c + 1) (\<lambda>c. 2 * size c))
    (case_sum (\<lambda>c. 2 * size c)
       (case_sum (\<lambda>c. 2 * size c) (\<lambda>cs. 2 * size_list size cs + 1))))", goal_cases)
  case (5 node b ba bb bc)
  then have "size bc < size bb" and "size bb < size node"
    by (simp_all add: child_size)
  then show ?case by simp
next
  case (8 node b)
  with size_children [of b] child_size [of node 1 b] show ?case by simp
qed (simp_all add: child_size)

declare convert_statement.simps [simp del] convert_if.simps [simp del]
  convert_while.simps [simp del] convert_block.simps [simp del]

text \<open>
  \<^verbatim>\<open>convert_cst_to_ast\<close>: the program's name and one body list, the declarations first,
  then the statements. The result is \<^verbatim>\<open>None\<close> for a node that is not a program.
\<close>

record Program =
  program_name :: string
  program_body :: "stmt list"

fun convert_declarations :: "cst list \<Rightarrow> error + stmt list" where
  "convert_declarations [] = Inr []"
| "convert_declarations (c # cs) =
     (case convert_declaration c of
        Inl e \<Rightarrow> Inl e
      | Inr s \<Rightarrow>
          (case convert_declarations cs of
             Inl e \<Rightarrow> Inl e
           | Inr ss \<Rightarrow> Inr (s # ss)))"

definition convert_cst_to_ast :: "cst \<Rightarrow> error + Program option" where
  "convert_cst_to_ast cst_node =
     (if node_type cst_node = ''PROGRAM'' then
        (if children cst_node = [] then Inr None
         else
           (case child_value cst_node 1 of
              Inl e \<Rightarrow> Inl e
            | Inr name \<Rightarrow>
                (case (if length (children cst_node) > 4
                       then convert_declarations (children (children cst_node ! 4))
                       else Inr []) of
                   Inl e \<Rightarrow> Inl e
                 | Inr decls \<Rightarrow>
                     (case (if length (children cst_node) > 5
                            then convert_statements (children (children cst_node ! 5))
                            else Inr []) of
                        Inl e \<Rightarrow> Inl e
                      | Inr stmts \<Rightarrow> Inr (Some \<lparr>program_name = name, program_body = decls @ stmts\<rparr>)))))
      else Inr None)"

section \<open>Semantic analysis (symbols.py, semantic.py)\<close>

text \<open>
  A \<^verbatim>\<open>Symbol\<close> records the name, the category ("const" or "var"), the declared type and
  the level; its \<^verbatim>\<open>node\<close> and \<^verbatim>\<open>pos\<close> are stored and never read, and are left out. A
  \<^verbatim>\<open>Scope\<close> maps names to symbols and has an optional parent. \<^verbatim>\<open>declare\<close> raises
  \<^verbatim>\<open>KeyError\<close> with a message on a name the scope already has; the message is the \<open>Inl\<close>
  value here.
\<close>

record Symbol =
  symbol_name :: string
  category :: string
  symbol_type :: string
  symbol_level :: int

datatype Scope = Scope (scope_parent: "Scope option") (scope_level: int) (names: "string \<rightharpoonup> Symbol")

record diagnostic =
  code :: string
  msg :: string

fun Scope_declare :: "Scope \<Rightarrow> string \<Rightarrow> string \<Rightarrow> string \<Rightarrow> string + Scope" where
  "Scope_declare (Scope p lv ns) n cat ty =
     (if ns n \<noteq> None then Inl (''Duplicate declaration: '' @ n)
      else Inr (Scope p lv
             (ns(n \<mapsto> \<lparr>symbol_name = n, category = cat, symbol_type = ty, symbol_level = lv\<rparr>))))"

fun Scope_resolve :: "Scope \<Rightarrow> string \<Rightarrow> Symbol option" where
  "Scope_resolve (Scope p lv ns) n =
     (case ns n of
        Some symbol \<Rightarrow> Some symbol
      | None \<Rightarrow> (case p of Some ps \<Rightarrow> Scope_resolve ps n | None \<Rightarrow> None))"

text \<open>
  The declaration pass of \<^verbatim>\<open>analyze\<close>: every top-level \<^verbatim>\<open>ConstDecl\<close> or \<^verbatim>\<open>VarDecl\<close> is
  declared in the global scope; a duplicate adds the diagnostic \<^verbatim>\<open>E_DUP_DECL\<close>, whose
  message is \<^verbatim>\<open>str\<close> of the \<^verbatim>\<open>KeyError\<close>, the message between single quotes. A
  statement that is a list or \<^verbatim>\<open>None\<close> has no \<^verbatim>\<open>get\<close>: \<^verbatim>\<open>AttributeError\<close>. The list
  \<open>errors\<close> that the source appends to is passed along.
\<close>

definition declare_statement ::
  "string \<Rightarrow> string \<Rightarrow> string \<Rightarrow> Scope \<Rightarrow> diagnostic list \<Rightarrow> Scope \<times> diagnostic list" where
  "declare_statement cat n ty scope errors =
     (case Scope_declare scope n cat ty of
        Inl message \<Rightarrow>
          (scope, errors @ [\<lparr>code = ''E_DUP_DECL'', msg = [CHR 0x27] @ message @ [CHR 0x27]\<rparr>])
      | Inr scope' \<Rightarrow> (scope', errors))"

fun declaration_pass ::
  "stmt list \<Rightarrow> Scope \<Rightarrow> diagnostic list \<Rightarrow> error + Scope \<times> diagnostic list" where
  "declaration_pass [] scope errors = Inr (scope, errors)"
| "declaration_pass (ConstDecl n ty v # ss) scope errors =
     (case declare_statement ''const'' n ty scope errors of
        (scope', errors') \<Rightarrow> declaration_pass ss scope' errors')"
| "declaration_pass (VarDecl n ty v # ss) scope errors =
     (case declare_statement ''var'' n ty scope errors of
        (scope', errors') \<Rightarrow> declaration_pass ss scope' errors')"
| "declaration_pass (BlockList b # ss) scope errors = Inl AttributeError"
| "declaration_pass (NoStmt # ss) scope errors = Inl AttributeError"
| "declaration_pass (s # ss) scope errors = declaration_pass ss scope errors"

text \<open>
  The resolution pass: \<^verbatim>\<open>resolve_expr\<close>, and \<^verbatim>\<open>check_statements\<close> with the body of its
  loop as \<open>check_statement\<close>. Only the value of an \<^verbatim>\<open>Assign\<close> and the tests of \<^verbatim>\<open>IfStmt\<close>
  and \<^verbatim>\<open>WhileStmt\<close> are resolved; the branch for declarations does not exist, so their
  initialisers are not looked at.
\<close>

fun resolve_expr :: "expr \<Rightarrow> Scope \<Rightarrow> diagnostic list \<Rightarrow> diagnostic list" where
  "resolve_expr NoExpr scope errors = errors"
| "resolve_expr (Identifier n) scope errors =
     (if Scope_resolve scope n = None
      then errors @ [\<lparr>code = ''E_UNDEFINED'', msg = ''Undefined identifier: '' @ n\<rparr>]
      else errors)"
| "resolve_expr (BinaryExpr operator l r) scope errors =
     resolve_expr r scope (resolve_expr l scope errors)"
| "resolve_expr (Literal v) scope errors = errors"
| "resolve_expr (OtherExpr t) scope errors = errors"

fun check_statement :: "stmt \<Rightarrow> Scope \<Rightarrow> diagnostic list \<Rightarrow> error + diagnostic list"
and check_statements :: "stmt list \<Rightarrow> Scope \<Rightarrow> diagnostic list \<Rightarrow> error + diagnostic list"
where
  "check_statement (Assign target v) scope errors =
     Inr (resolve_expr v scope
       (case Scope_resolve scope target of
          None \<Rightarrow>
            errors @ [\<lparr>code = ''E_UNDEFINED'', msg = ''Undefined variable: '' @ target\<rparr>]
        | Some symbol \<Rightarrow>
            if category symbol = ''const''
            then errors @ [\<lparr>code = ''E_CONST_ASSIGN'', msg = ''Cannot reassign constant: '' @ target\<rparr>]
            else errors))"
| "check_statement (ActionStmt action) scope errors = Inr errors"
| "check_statement (IfStmt test consequent alternate) scope errors =
     (case check_statements consequent scope (resolve_expr test scope errors) of
        Inl e \<Rightarrow> Inl e
      | Inr errors' \<Rightarrow>
          (case alternate of
             Some alt \<Rightarrow> if alt \<noteq> [] then check_statements alt scope errors' else Inr errors'
           | None \<Rightarrow> Inr errors'))"
| "check_statement (WhileStmt test body) scope errors =
     check_statements body scope (resolve_expr test scope errors)"
| "check_statement (VarDecl n ty v) scope errors = Inr errors"
| "check_statement (ConstDecl n ty v) scope errors = Inr errors"
| "check_statement (OtherStmt t) scope errors = Inr errors"
| "check_statement (BlockList ss) scope errors = Inl AttributeError"
| "check_statement NoStmt scope errors = Inl AttributeError"
| "check_statements [] scope errors = Inr errors"
| "check_statements (s # ss) scope errors =
     (case check_statement s scope errors of
        Inl e \<Rightarrow> Inl e
      | Inr errors' \<Rightarrow> check_statements ss scope errors')"

definition analyze :: "Program option \<Rightarrow> error + diagnostic list" where
  "analyze ast =
     (case ast of
        None \<Rightarrow> Inl AttributeError
      | Some program \<Rightarrow>
          (case declaration_pass (program_body program) (Scope None 0 Map.empty) [] of
             Inl e \<Rightarrow> Inl e
           | Inr (global_scope, errors) \<Rightarrow>
               check_statements (program_body program) global_scope errors))"

subsection \<open>The pipeline of main, from the CST on\<close>

text \<open>
  \<^verbatim>\<open>main\<close> on a source file, after lexing and parsing: convert, analyse, stop when there
  are diagnostics (\<^verbatim>\<open>sys.exit(1)\<close>), otherwise run the interpreter on a fresh 5 by 5 grid.
  An exception of the converter or the analyser is not caught.
\<close>

datatype pipeline_result =
    SemanticErrors "diagnostic list"
  | Uncaught error
  | Interpreted "Interpreter outcome"

definition main_from_cst :: "cst \<Rightarrow> pipeline_result" where
  "main_from_cst cst_root =
     (case convert_cst_to_ast cst_root of
        Inl e \<Rightarrow> Uncaught e
      | Inr ast \<Rightarrow>
          (case analyze ast of
             Inl e \<Rightarrow> Uncaught e
           | Inr errors \<Rightarrow>
               if errors \<noteq> [] then SemanticErrors errors
               else (case ast of
                       None \<Rightarrow> Uncaught AttributeError
                     | Some program \<Rightarrow>
                         Interpreted
                           (run (program_body program)
                              (Interpreter_init\<lparr>grid := Some (GridWorld_init 5 5)\<rparr>)))))"

subsection \<open>Concrete syntax trees of example programs\<close>

text \<open>
  The trees that the parser builds: a terminal for each token eaten, and for an
  expression made of one factor the nodes \<^verbatim>\<open>EXPRESSION\<close>, \<^verbatim>\<open>TERM\<close> and \<^verbatim>\<open>FACTOR\<close> with
  their empty tails. \<open>program_cst\<close> is \<^verbatim>\<open>program p { grid(5,5); ... }\<close>.
  \<open>const_x_then_assign\<close> is the program with \<^verbatim>\<open>const x : int = 5;\<close> and \<^verbatim>\<open>x = 6;\<close>,
  \<open>var_b_is_sense\<close> the one with \<^verbatim>\<open>var b : bool = sense;\<close>, \<open>while_sense_clean\<close> the one
  with \<^verbatim>\<open>while (sense) { clean; }\<close>.
\<close>

definition terminal :: "string \<Rightarrow> cst" where
  "terminal v = CSTNode ''TERMINAL'' (Some v) []"

definition factor_term :: "cst list \<Rightarrow> cst" where
  "factor_term factor_children =
     CSTNode ''TERM'' None
       [CSTNode ''FACTOR'' None factor_children, CSTNode ''TERM_TAIL'' None []]"

definition expression_of_factor :: "cst list \<Rightarrow> cst" where
  "expression_of_factor factor_children =
     CSTNode ''EXPRESSION'' None
       [factor_term factor_children, CSTNode ''EXPRESSION_TAIL'' None []]"

definition literal_term :: "string \<Rightarrow> cst" where
  "literal_term v = factor_term [CSTNode ''LITERAL'' None [terminal v]]"

definition literal_expression :: "string \<Rightarrow> cst" where
  "literal_expression v = expression_of_factor [CSTNode ''LITERAL'' None [terminal v]]"

definition program_cst :: "cst list \<Rightarrow> cst list \<Rightarrow> cst" where
  "program_cst declarations statements =
     CSTNode ''PROGRAM'' None
       [terminal ''program'', terminal ''p'', terminal ''{'',
        CSTNode ''WORLD_DEF'' None
          [terminal ''grid'', terminal ''('', terminal ''5'', terminal '','', terminal ''5'',
           terminal '')'', terminal '';''],
        CSTNode ''DECLARATIONS'' None declarations,
        CSTNode ''STATEMENTS'' None statements,
        terminal ''}'']"

text \<open>The expression \<^verbatim>\<open>1 + 2 + 3\<close>: the tail of the first \<^verbatim>\<open>+\<close> holds the tail of the second.\<close>

definition cst_1_plus_2_plus_3 :: cst where
  "cst_1_plus_2_plus_3 =
     CSTNode ''EXPRESSION'' None
       [literal_term ''1'',
        CSTNode ''EXPRESSION_TAIL'' None
          [CSTNode ''ADD_OP'' None [terminal ''+''],
           literal_term ''2'',
           CSTNode ''EXPRESSION_TAIL'' None
             [CSTNode ''ADD_OP'' None [terminal ''+''],
              literal_term ''3'',
              CSTNode ''EXPRESSION_TAIL'' None []]]]"

definition while_sense_clean :: cst where
  "while_sense_clean =
     program_cst []
       [CSTNode ''WHILE_STATEMENT'' None
          [terminal ''while'', terminal ''('',
           CSTNode ''CONDITION'' None
             [expression_of_factor [terminal ''sense''], CSTNode ''CONDITION_TAIL'' None []],
           terminal '')'',
           CSTNode ''BLOCK'' None
             [terminal ''{'',
              CSTNode ''STATEMENTS'' None [CSTNode ''ACTION'' None [terminal ''clean'', terminal '';'']],
              terminal ''}'']]]"

definition const_x_then_assign :: cst where
  "const_x_then_assign =
     program_cst
       [CSTNode ''DECLARATION'' None
          [terminal ''const'', terminal ''x'', terminal '':'',
           CSTNode ''TYPE'' None [terminal ''int''], terminal ''='',
           literal_expression ''5'', terminal '';'']]
       [CSTNode ''ASSIGNMENT'' None
          [terminal ''x'', terminal ''='', literal_expression ''6'', terminal '';'']]"

definition var_b_is_sense :: cst where
  "var_b_is_sense =
     program_cst
       [CSTNode ''DECLARATION'' None
          [terminal ''var'', terminal ''b'', terminal '':'',
           CSTNode ''TYPE'' None [terminal ''bool''],
           CSTNode ''VAR_TAIL'' None
             [terminal ''='', expression_of_factor [terminal ''sense''], terminal '';'']]]
       []"


subsection \<open>Vocabulary for the properties of the analysis\<close>

text \<open>
  \<open>mentions_sense e\<close>: the identifier \<^verbatim>\<open>sense\<close> occurs in \<open>e\<close>. \<open>sense_in_stmts ss\<close>: it
  occurs in the value of an assignment or in the test of an if or a while among \<open>ss\<close>, at
  any depth of nesting. \<open>declared_names ss\<close>: the names of the declarations among \<open>ss\<close>.
\<close>

fun mentions_sense :: "expr \<Rightarrow> bool" where
  "mentions_sense (Identifier n) = (n = ''sense'')"
| "mentions_sense (BinaryExpr operator l r) = (mentions_sense l \<or> mentions_sense r)"
| "mentions_sense (Literal v) = False"
| "mentions_sense (OtherExpr t) = False"
| "mentions_sense NoExpr = False"

fun sense_in_stmt :: "stmt \<Rightarrow> bool"
and sense_in_stmts :: "stmt list \<Rightarrow> bool"
where
  "sense_in_stmt (Assign target v) = mentions_sense v"
| "sense_in_stmt (IfStmt test consequent alternate) =
     (mentions_sense test \<or> sense_in_stmts consequent \<or>
      (case alternate of Some alt \<Rightarrow> sense_in_stmts alt | None \<Rightarrow> False))"
| "sense_in_stmt (WhileStmt test body) = (mentions_sense test \<or> sense_in_stmts body)"
| "sense_in_stmt (VarDecl n ty v) = False"
| "sense_in_stmt (ConstDecl n ty v) = False"
| "sense_in_stmt (ActionStmt action) = False"
| "sense_in_stmt (OtherStmt t) = False"
| "sense_in_stmt (BlockList ss) = False"
| "sense_in_stmt NoStmt = False"
| "sense_in_stmts [] = False"
| "sense_in_stmts (s # ss) = (sense_in_stmt s \<or> sense_in_stmts ss)"

fun declared_names :: "stmt list \<Rightarrow> string list" where
  "declared_names [] = []"
| "declared_names (ConstDecl n ty v # ss) = n # declared_names ss"
| "declared_names (VarDecl n ty v # ss) = n # declared_names ss"
| "declared_names (s # ss) = declared_names ss"

definition undefined_sense :: diagnostic where
  "undefined_sense = \<lparr>code = ''E_UNDEFINED'', msg = ''Undefined identifier: sense''\<rparr>"

subsection \<open>Vocabulary for the loop properties\<close>

text \<open>
  \<open>repeat_body body n st\<close> runs the loop body \<open>n\<close> times in a row from \<open>st\<close>, stopping at the
  first execution that raises. \<open>holds test st\<close>: the test evaluates in \<open>st\<close>, to a value
  that counts as true; \<open>fails test st\<close>: it evaluates, to a value that counts as false.
\<close>

fun repeat_body :: "stmt list \<Rightarrow> nat \<Rightarrow> Interpreter \<Rightarrow> Interpreter outcome" where
  "repeat_body body 0 st = Inr st"
| "repeat_body body (Suc n) st =
     (case execute_stmts body st of
        Inl es \<Rightarrow> Inl es
      | Inr st' \<Rightarrow> repeat_body body n st')"

definition holds :: "expr \<Rightarrow> Interpreter \<Rightarrow> bool" where
  "holds test st = (case evaluate_expr st test of Inl e \<Rightarrow> False | Inr v \<Rightarrow> truthy v)"

definition fails :: "expr \<Rightarrow> Interpreter \<Rightarrow> bool" where
  "fails test st = (case evaluate_expr st test of Inl e \<Rightarrow> False | Inr v \<Rightarrow> \<not> truthy v)"

text \<open>Example programs: a counter \<open>i\<close> and the loop body \<^verbatim>\<open>i = i + 1;\<close>, and a variable \<open>x\<close>.\<close>

definition counting_state :: "int \<Rightarrow> Interpreter" where
  "counting_state k = Interpreter_init\<lparr>env := Environment (Map.empty(''i'' \<mapsto> VInt k)) None\<rparr>"

definition increment_i :: "stmt list" where
  "increment_i = [Assign ''i'' (BinaryExpr ''+'' (Identifier ''i'') (Literal (VInt 1)))]"

definition x_is_7 :: Interpreter where
  "x_is_7 = Interpreter_init\<lparr>env := Environment (Map.empty(''x'' \<mapsto> VInt 7)) None\<rparr>"

section \<open>Properties of the grid world\<close>

lemma index_of_DIRECTIONS:
  "index_of DIRECTIONS ''north'' = Inr 0"
  "index_of DIRECTIONS ''east'' = Inr 1"
  "index_of DIRECTIONS ''south'' = Inr 2"
  "index_of DIRECTIONS ''west'' = Inr 3"
  by (simp_all add: DIRECTIONS_def)

lemma DIRECTIONS_nth:
  "DIRECTIONS ! 0 = ''north''"
  "DIRECTIONS ! Suc 0 = ''east''"
  "DIRECTIONS ! 2 = ''south''"
  "DIRECTIONS ! 3 = ''west''"
  by (simp_all add: DIRECTIONS_def numeral_2_eq_2 numeral_3_eq_3)

lemma facing_cases:
  assumes "d \<in> set DIRECTIONS"
  obtains "d = ''north''" | "d = ''east''" | "d = ''south''" | "d = ''west''"
  using assms by (auto simp: DIRECTIONS_def)

lemma turn_right_facing:
  "turn_right (g\<lparr>agent_direction := ''north''\<rparr>) = Inr (g\<lparr>agent_direction := ''east''\<rparr>)"
  "turn_right (g\<lparr>agent_direction := ''east''\<rparr>) = Inr (g\<lparr>agent_direction := ''south''\<rparr>)"
  "turn_right (g\<lparr>agent_direction := ''south''\<rparr>) = Inr (g\<lparr>agent_direction := ''west''\<rparr>)"
  "turn_right (g\<lparr>agent_direction := ''west''\<rparr>) = Inr (g\<lparr>agent_direction := ''north''\<rparr>)"
  by (simp_all add: turn_right_def index_of_DIRECTIONS DIRECTIONS_nth)

lemma turn_left_facing:
  "turn_left (g\<lparr>agent_direction := ''north''\<rparr>) = Inr (g\<lparr>agent_direction := ''west''\<rparr>)"
  "turn_left (g\<lparr>agent_direction := ''west''\<rparr>) = Inr (g\<lparr>agent_direction := ''south''\<rparr>)"
  "turn_left (g\<lparr>agent_direction := ''south''\<rparr>) = Inr (g\<lparr>agent_direction := ''east''\<rparr>)"
  "turn_left (g\<lparr>agent_direction := ''east''\<rparr>) = Inr (g\<lparr>agent_direction := ''north''\<rparr>)"
  by (simp_all add: turn_left_def index_of_DIRECTIONS DIRECTIONS_nth)

lemma move_shape:
  "\<exists>nx ny. move g =
     (if 0 \<le> nx \<and> nx < width g \<and> 0 \<le> ny \<and> ny < height g
      then Inr (g\<lparr>agent_x := nx, agent_y := ny\<rparr>)
      else Inl (CannotMoveOffGrid nx ny, g))"
  unfolding move_def Let_def by (simp only: split_beta) blast

lemma state_after_move:
  "state_after (move g) = g \<or>
   (\<exists>nx ny. in_grid g (nx, ny) \<and> state_after (move g) = g\<lparr>agent_x := nx, agent_y := ny\<rparr>)"
proof -
  obtain nx ny where m: "move g =
     (if 0 \<le> nx \<and> nx < width g \<and> 0 \<le> ny \<and> ny < height g
      then Inr (g\<lparr>agent_x := nx, agent_y := ny\<rparr>)
      else Inl (CannotMoveOffGrid nx ny, g))"
    using move_shape by blast
  show ?thesis
  proof (cases "0 \<le> nx \<and> nx < width g \<and> 0 \<le> ny \<and> ny < height g")
    case True
    with m have "state_after (move g) = g\<lparr>agent_x := nx, agent_y := ny\<rparr>"
      by (simp add: state_after_def)
    moreover from True have "in_grid g (nx, ny)" by (simp add: in_grid_def)
    ultimately show ?thesis by blast
  next
    case False
    with m have "state_after (move g) = g" by (simp add: state_after_def)
    then show ?thesis by simp
  qed
qed

lemma state_after_turn:
  "\<exists>d. state_after (turn_left g) = g\<lparr>agent_direction := d\<rparr>"
  "\<exists>d. state_after (turn_right g) = g\<lparr>agent_direction := d\<rparr>"
proof -
  have g: "g = g\<lparr>agent_direction := agent_direction g\<rparr>" by simp
  show "\<exists>d. state_after (turn_left g) = g\<lparr>agent_direction := d\<rparr>"
  proof (cases "index_of DIRECTIONS (agent_direction g)")
    case (Inl e)
    then have "state_after (turn_left g) = g" by (simp add: turn_left_def state_after_def)
    with g show ?thesis by metis
  next
    case (Inr i)
    then have "state_after (turn_left g) = g\<lparr>agent_direction := DIRECTIONS ! nat ((i - 1) mod 4)\<rparr>"
      by (simp add: turn_left_def state_after_def)
    then show ?thesis by blast
  qed
  show "\<exists>d. state_after (turn_right g) = g\<lparr>agent_direction := d\<rparr>"
  proof (cases "index_of DIRECTIONS (agent_direction g)")
    case (Inl e)
    then have "state_after (turn_right g) = g" by (simp add: turn_right_def state_after_def)
    with g show ?thesis by metis
  next
    case (Inr i)
    then have "state_after (turn_right g) = g\<lparr>agent_direction := DIRECTIONS ! nat ((i + 1) mod 4)\<rparr>"
      by (simp add: turn_right_def state_after_def)
    then show ?thesis by blast
  qed
qed

lemma apply_op_dims: "width (apply_op p g) = width g \<and> height (apply_op p g) = height g"
proof (cases p)
  case Move
  with state_after_move [of g] show ?thesis by auto
next
  case TurnLeft
  with state_after_turn(1) [of g] show ?thesis by auto
next
  case TurnRight
  with state_after_turn(2) [of g] show ?thesis by auto
next
  case Clean
  then show ?thesis by (simp add: clean_def Let_def)
next
  case Sense
  then show ?thesis by simp
qed

lemma apply_op_pos:
  "agent_pos (apply_op p g) = agent_pos g \<or> in_grid g (agent_pos (apply_op p g))"
proof (cases p)
  case Move
  with state_after_move [of g] show ?thesis by (auto simp: agent_pos_def)
next
  case TurnLeft
  with state_after_turn(1) [of g] show ?thesis by (auto simp: agent_pos_def)
next
  case TurnRight
  with state_after_turn(2) [of g] show ?thesis by (auto simp: agent_pos_def)
next
  case Clean
  then show ?thesis by (simp add: clean_def Let_def agent_pos_def)
next
  case Sense
  then show ?thesis by simp
qed

lemma run_ops_dims: "width (run_ops ps g) = width g \<and> height (run_ops ps g) = height g"
  by (induction ps arbitrary: g) (simp_all add: apply_op_dims)

lemma in_grid_apply_op: "in_grid (apply_op p g) c = in_grid g c"
  by (simp add: in_grid_def apply_op_dims)

lemma in_grid_run_ops: "in_grid (run_ops ps g) c = in_grid g c"
  by (simp add: in_grid_def run_ops_dims)

lemma run_ops_in_grid:
  "in_grid g (agent_pos g) \<Longrightarrow> in_grid g (agent_pos (run_ops ps g))"
proof (induction ps arbitrary: g)
  case Nil
  then show ?case by simp
next
  case (Cons p ps)
  have "in_grid (apply_op p g) (agent_pos (apply_op p g))"
    using apply_op_pos [of p g] Cons.prems by (auto simp: in_grid_apply_op)
  from Cons.IH [OF this] show ?case by (simp add: in_grid_apply_op)
qed

lemma run_ops_origin_or_in_grid:
  "agent_pos g = (0, 0) \<or> in_grid g (agent_pos g) \<Longrightarrow>
   agent_pos (run_ops ps g) = (0, 0) \<or> in_grid g (agent_pos (run_ops ps g))"
proof (induction ps arbitrary: g)
  case Nil
  then show ?case by simp
next
  case (Cons p ps)
  have "agent_pos (apply_op p g) = (0, 0) \<or> in_grid (apply_op p g) (agent_pos (apply_op p g))"
    using apply_op_pos [of p g] Cons.prems by (auto simp: in_grid_apply_op)
  from Cons.IH [OF this] show ?case by (simp add: in_grid_apply_op)
qed


text \<open>
  C7. From each of the four facings, \<open>turn_left\<close> followed by \<open>turn_right\<close>, and
  \<open>turn_right\<close> followed by \<open>turn_left\<close>, give the grid back unchanged; four turns the
  same way do so too; and \<open>turn_right\<close> takes north to east, east to south, south to west
  and west to north.
\<close>

theorem turn_inverse_and_cycle:
  assumes "agent_direction g \<in> set DIRECTIONS"
  shows "and_then (turn_left g) turn_right = Inr g \<and>
         and_then (turn_right g) turn_left = Inr g \<and>
         and_then (and_then (and_then (turn_right g) turn_right) turn_right) turn_right = Inr g \<and>
         and_then (and_then (and_then (turn_left g) turn_left) turn_left) turn_left = Inr g \<and>
         turn_right (g\<lparr>agent_direction := ''north''\<rparr>) = Inr (g\<lparr>agent_direction := ''east''\<rparr>) \<and>
         turn_right (g\<lparr>agent_direction := ''east''\<rparr>) = Inr (g\<lparr>agent_direction := ''south''\<rparr>) \<and>
         turn_right (g\<lparr>agent_direction := ''south''\<rparr>) = Inr (g\<lparr>agent_direction := ''west''\<rparr>) \<and>
         turn_right (g\<lparr>agent_direction := ''west''\<rparr>) = Inr (g\<lparr>agent_direction := ''north''\<rparr>)"
proof -
  define d where "d = agent_direction g"
  have d: "d \<in> set DIRECTIONS"
    using assms by (simp add: d_def)
  from d have main: "and_then (turn_left (g\<lparr>agent_direction := d\<rparr>)) turn_right = Inr (g\<lparr>agent_direction := d\<rparr>) \<and>
         and_then (turn_right (g\<lparr>agent_direction := d\<rparr>)) turn_left = Inr (g\<lparr>agent_direction := d\<rparr>) \<and>
         and_then (and_then (and_then (turn_right (g\<lparr>agent_direction := d\<rparr>)) turn_right) turn_right) turn_right = Inr (g\<lparr>agent_direction := d\<rparr>) \<and>
         and_then (and_then (and_then (turn_left (g\<lparr>agent_direction := d\<rparr>)) turn_left) turn_left) turn_left = Inr (g\<lparr>agent_direction := d\<rparr>)"
    by (elim facing_cases) (simp_all add: turn_right_facing turn_left_facing and_then_def)
  from main show ?thesis
    unfolding d_def by (simp add: turn_right_facing)
qed

theorem turn_inverse_and_cycle_witness:
  "agent_direction (GridWorld_init 5 5) \<in> set DIRECTIONS \<and>
   and_then (turn_left (GridWorld_init 5 5)) turn_right = Inr (GridWorld_init 5 5) \<and>
   and_then (turn_right (GridWorld_init 5 5)) turn_left = Inr (GridWorld_init 5 5) \<and>
   and_then (and_then (and_then (turn_right (GridWorld_init 5 5)) turn_right) turn_right)
     turn_right = Inr (GridWorld_init 5 5)"
proof -
  have h: "agent_direction (GridWorld_init 5 5) \<in> set DIRECTIONS"
    by (simp add: GridWorld_init_def DIRECTIONS_def)
  from turn_inverse_and_cycle [OF h] h show ?thesis by simp
qed

text \<open>
  C3. For each of the four facings, \<open>move\<close> raises the off-grid error exactly when the
  cell one step ahead is outside the grid, and then leaves the grid as it was (position,
  facing and dirt); otherwise the agent stands on that cell afterwards, nothing else
  changed: no clamping, no wrap-around.
\<close>

theorem move_fails_exactly_off_grid:
  assumes "agent_direction g \<in> set DIRECTIONS"
  shows "move g =
    (let c = cell_ahead (agent_direction g) (agent_pos g)
     in if in_grid g c then Inr (g\<lparr>agent_x := fst c, agent_y := snd c\<rparr>)
        else Inl (CannotMoveOffGrid (fst c) (snd c), g))"
  using assms
  by (elim facing_cases) (simp_all add: move_def cell_ahead_def in_grid_def agent_pos_def Let_def)

theorem move_fails_exactly_off_grid_witness:
  "agent_direction (GridWorld_init 1 1) \<in> set DIRECTIONS \<and>
   move (GridWorld_init 1 1) = Inl (CannotMoveOffGrid 0 (- 1), GridWorld_init 1 1) \<and>
   agent_direction ((GridWorld_init 5 5)\<lparr>agent_direction := ''east''\<rparr>) \<in> set DIRECTIONS \<and>
   move ((GridWorld_init 5 5)\<lparr>agent_direction := ''east''\<rparr>) =
     Inr ((GridWorld_init 5 5)\<lparr>agent_direction := ''east'', agent_x := 1\<rparr>)"
proof -
  have h1: "agent_direction (GridWorld_init 1 1) \<in> set DIRECTIONS"
    by (simp add: GridWorld_init_def DIRECTIONS_def)
  have h2: "agent_direction ((GridWorld_init 5 5)\<lparr>agent_direction := ''east''\<rparr>)
              \<in> set DIRECTIONS"
    by (simp add: DIRECTIONS_def)
  from move_fails_exactly_off_grid [OF h1] move_fails_exactly_off_grid [OF h2] h1 h2
  show ?thesis
    by (simp add: GridWorld_init_def cell_ahead_def in_grid_def agent_pos_def)
qed

text \<open>
  C8. \<open>clean\<close> twice is \<open>clean\<close> once. It removes the agent's cell from the dirt when it is
  there and is the identity otherwise; the dirt of every other cell, the agent's position
  and its facing are as before.
\<close>

theorem clean_idempotent:
  "clean (clean g) = clean g \<and>
   clean g = (if sense g then g\<lparr>dirt := dirt g - {agent_pos g}\<rparr> else g) \<and>
   dirt (clean g) = dirt g - {agent_pos g} \<and>
   agent_pos (clean g) = agent_pos g \<and>
   agent_direction (clean g) = agent_direction g \<and>
   width (clean g) = width g \<and> height (clean g) = height g"
  by (simp add: clean_def sense_def agent_pos_def Let_def)

text \<open>
  C5. On a grid built with width and height at least 1, take any finite sequence of
  move, turnLeft, turnRight, clean and sense (a failed move leaving the grid as it was).
  After each of its operations, that is after the first \<open>n\<close> of them for every \<open>n\<close>, the
  agent's coordinates are within \<open>[0, width) \<times> [0, height)\<close>.
\<close>

theorem agent_stays_in_grid:
  assumes "1 \<le> w" and "1 \<le> h"
  shows "0 \<le> agent_x (run_ops (take n ops) (GridWorld_init w h)) \<and>
         agent_x (run_ops (take n ops) (GridWorld_init w h)) < w \<and>
         0 \<le> agent_y (run_ops (take n ops) (GridWorld_init w h)) \<and>
         agent_y (run_ops (take n ops) (GridWorld_init w h)) < h"
proof -
  have "in_grid (GridWorld_init w h) (agent_pos (GridWorld_init w h))"
    using assms by (simp add: in_grid_def agent_pos_def GridWorld_init_def)
  from run_ops_in_grid [OF this, of "take n ops"] show ?thesis
    by (simp add: in_grid_def agent_pos_def GridWorld_init_def)
qed

theorem agent_stays_in_grid_witness:
  "(1::int) \<le> 2 \<and> (1::int) \<le> 3 \<and>
   0 \<le> agent_x (run_ops [TurnRight, Move, Move, Clean, TurnRight, Move, Sense, TurnLeft]
                   (GridWorld_init 2 3)) \<and>
   agent_x (run_ops [TurnRight, Move, Move, Clean, TurnRight, Move, Sense, TurnLeft]
              (GridWorld_init 2 3)) < 2 \<and>
   0 \<le> agent_y (run_ops [TurnRight, Move, Move, Clean, TurnRight, Move, Sense, TurnLeft]
                   (GridWorld_init 2 3)) \<and>
   agent_y (run_ops [TurnRight, Move, Move, Clean, TurnRight, Move, Sense, TurnLeft]
              (GridWorld_init 2 3)) < 3"
proof -
  have h: "(1::int) \<le> 2" "(1::int) \<le> 3" by simp_all
  have t: "take 8 [TurnRight, Move, Move, Clean, TurnRight, Move, Sense, TurnLeft] =
             [TurnRight, Move, Move, Clean, TurnRight, Move, Sense, TurnLeft]"
    by simp
  from agent_stays_in_grid
    [OF h, of 8 "[TurnRight, Move, Move, Clean, TurnRight, Move, Sense, TurnLeft]"]
  show ?thesis unfolding t by simp
qed

text \<open>
  C9. Whatever the dimensions, a fresh grid has the agent at (0, 0) facing north and
  exactly the dirt cells (2, 2), (3, 1) and (1, 3). When the width or the height is at
  most 3, one of these cells is outside the grid, and no sequence of operations brings
  the agent onto it.
\<close>

theorem fresh_grid_seeds_three_dirt_cells:
  "agent_x (GridWorld_init w h) = 0 \<and> agent_y (GridWorld_init w h) = 0 \<and>
   agent_direction (GridWorld_init w h) = ''north'' \<and>
   dirt (GridWorld_init w h) = {(2, 2), (3, 1), (1, 3)} \<and>
   (w \<le> 3 \<or> h \<le> 3 \<longrightarrow>
      (\<exists>c \<in> dirt (GridWorld_init w h). \<not> in_grid (GridWorld_init w h) c \<and>
         (\<forall>ops. agent_pos (run_ops ops (GridWorld_init w h)) \<noteq> c)))"
proof -
  let ?g = "GridWorld_init w h"
  have reach: "agent_pos (run_ops ops ?g) = (0, 0) \<or> in_grid ?g (agent_pos (run_ops ops ?g))" for ops
    by (rule run_ops_origin_or_in_grid) (simp add: agent_pos_def GridWorld_init_def)
  have never: "\<not> in_grid ?g c \<Longrightarrow> c \<noteq> (0, 0) \<Longrightarrow> agent_pos (run_ops ops ?g) \<noteq> c" for c ops
    using reach [of ops] by auto
  have "\<exists>c \<in> dirt ?g. \<not> in_grid ?g c \<and> (\<forall>ops. agent_pos (run_ops ops ?g) \<noteq> c)"
    if "w \<le> 3 \<or> h \<le> 3"
  proof -
    from that consider "w \<le> 3" | "h \<le> 3" by blast
    then show ?thesis
    proof cases
      case 1
      then have "\<not> in_grid ?g (3, 1)" by (simp add: in_grid_def GridWorld_init_def)
      with never [of "(3, 1)"] show ?thesis by (auto simp: GridWorld_init_def)
    next
      case 2
      then have "\<not> in_grid ?g (1, 3)" by (simp add: in_grid_def GridWorld_init_def)
      with never [of "(1, 3)"] show ?thesis by (auto simp: GridWorld_init_def)
    qed
  qed
  then show ?thesis by (auto simp: GridWorld_init_def)
qed

theorem fresh_grid_seeds_three_dirt_cells_witness:
  "(3::int) \<le> 3 \<and>
   (\<exists>c \<in> dirt (GridWorld_init 3 5). \<not> in_grid (GridWorld_init 3 5) c \<and>
      (\<forall>ops. agent_pos (run_ops ops (GridWorld_init 3 5)) \<noteq> c))"
proof -
  have h: "(3::int) \<le> 3" by simp
  with fresh_grid_seeds_three_dirt_cells [of 3 5] show ?thesis by blast
qed


section \<open>Properties of the interpreter\<close>

subsection \<open>The iteration limit of while\<close>

lemma while_loop_unfold_true:
  assumes "holds test st"
  shows "while_loop B test i st =
           (if i + 1 > max_iterations then Inl (InfiniteLoopDetected, st)
            else (case B st of Inl es \<Rightarrow> Inl es | Inr st' \<Rightarrow> while_loop B test (i + 1) st'))"
  using assms by (subst while_loop.simps) (auto simp: holds_def Let_def split: sum.splits)

lemma while_loop_unfold_false:
  assumes "fails test st"
  shows "while_loop B test i st = Inr st"
  using assms by (subst while_loop.simps) (auto simp: fails_def split: sum.splits)

lemma while_loop_hits_cap:
  assumes "i = max_iterations - int m"
    and "\<forall>k\<le>m. \<exists>s. repeat_body body k st = Inr s \<and> holds test s"
  shows "\<exists>s. repeat_body body m st = Inr s \<and>
             while_loop (execute_stmts body) test i st = Inl (InfiniteLoopDetected, s)"
  using assms
proof (induction m arbitrary: i st)
  case 0
  then have "holds test st" by simp
  with 0 show ?case by (simp add: while_loop_unfold_true)
next
  case (Suc m)
  from Suc.prems(2) have h0: "holds test st" by fastforce
  from Suc.prems(2) obtain s1 where s1: "repeat_body body (Suc 0) st = Inr s1"
    by (metis Suc_leI zero_less_Suc One_nat_def le_add1 plus_1_eq_Suc)
  then have b: "execute_stmts body st = Inr s1" by (simp split: sum.splits)
  have rest: "\<forall>k\<le>m. \<exists>s. repeat_body body k s1 = Inr s \<and> holds test s"
  proof (intro allI impI)
    fix k assume "k \<le> m"
    then have "Suc k \<le> Suc m" by simp
    with Suc.prems(2) obtain s where "repeat_body body (Suc k) st = Inr s \<and> holds test s"
      by blast
    with b show "\<exists>s. repeat_body body k s1 = Inr s \<and> holds test s" by simp
  qed
  have i1: "i + 1 = max_iterations - int m" using Suc.prems(1) by simp
  from Suc.IH [OF i1 rest] obtain s where
    s: "repeat_body body m s1 = Inr s"
       "while_loop (execute_stmts body) test (i + 1) s1 = Inl (InfiniteLoopDetected, s)"
    by blast
  have "\<not> i + 1 > max_iterations" using i1 by simp
  with h0 b s show ?case by (simp add: while_loop_unfold_true)
qed

lemma while_loop_completes:
  assumes "i + int n \<le> max_iterations"
    and "\<forall>k<n. \<exists>s. repeat_body body k st = Inr s \<and> holds test s"
    and "repeat_body body n st = Inr s'"
    and "fails test s'"
  shows "while_loop (execute_stmts body) test i st = Inr s'"
  using assms
proof (induction n arbitrary: i st)
  case 0
  then show ?case by (simp add: while_loop_unfold_false)
next
  case (Suc n)
  from Suc.prems(2) have h0: "holds test st" by fastforce
  from Suc.prems(3) obtain s1 where b: "execute_stmts body st = Inr s1"
    and r: "repeat_body body n s1 = Inr s'"
    by (auto split: sum.splits)
  have rest: "\<forall>k<n. \<exists>s. repeat_body body k s1 = Inr s \<and> holds test s"
  proof (intro allI impI)
    fix k assume "k < n"
    then have "Suc k < Suc n" by simp
    with Suc.prems(2) obtain s where "repeat_body body (Suc k) st = Inr s \<and> holds test s"
      by blast
    with b show "\<exists>s. repeat_body body k s1 = Inr s \<and> holds test s" by simp
  qed
  have i1: "i + 1 + int n \<le> max_iterations" using Suc.prems(1) by simp
  from Suc.IH [OF i1 rest r Suc.prems(4)]
  have w: "while_loop (execute_stmts body) test (i + 1) s1 = Inr s'" .
  have "\<not> i + 1 > max_iterations" using i1 by simp
  with h0 b w show ?case by (simp add: while_loop_unfold_true)
qed

text \<open>
  C2 (as amended). Take a \<open>WhileStmt\<close> and a start state. If the body runs to its end each
  time, 10000 times in a row, and the test evaluates to true at the start and after each
  of these executions, then the statement raises the infinite-loop error in the state
  that exactly 10000 executions of the body leave: the check of the 10001st iteration
  raises before the body runs again, and the effects of the 10000 executions stay.
  If instead, after \<open>n \<le> 10000\<close> executions of the body that run to their end with the test
  true before each, the test evaluates to false, the statement ends normally in the state
  these \<open>n\<close> executions leave.
\<close>

theorem while_iteration_cap:
  "((\<forall>k\<le>10000. \<exists>s. repeat_body body k st = Inr s \<and> holds test s) \<longrightarrow>
      (\<exists>s. repeat_body body 10000 st = Inr s \<and>
           execute_stmt (WhileStmt test body) st = Inl (InfiniteLoopDetected, s))) \<and>
   (n \<le> 10000 \<and> (\<forall>k<n. \<exists>s. repeat_body body k st = Inr s \<and> holds test s) \<and>
    repeat_body body n st = Inr s' \<and> fails test s' \<longrightarrow>
      execute_stmt (WhileStmt test body) st = Inr s')"
proof (intro conjI impI)
  assume "\<forall>k\<le>10000. \<exists>s. repeat_body body k st = Inr s \<and> holds test s"
  with while_loop_hits_cap [of 0 10000 body st test]
  show "\<exists>s. repeat_body body 10000 st = Inr s \<and>
           execute_stmt (WhileStmt test body) st = Inl (InfiniteLoopDetected, s)"
    by (simp add: max_iterations_def execute_while_def)
next
  assume a: "n \<le> 10000 \<and> (\<forall>k<n. \<exists>s. repeat_body body k st = Inr s \<and> holds test s) \<and>
    repeat_body body n st = Inr s' \<and> fails test s'"
  then have "0 + int n \<le> max_iterations" by (simp add: max_iterations_def)
  with a while_loop_completes [of 0 n body st test s']
  show "execute_stmt (WhileStmt test body) st = Inr s'" by (simp add: execute_while_def)
qed

lemma increment_i_step: "execute_stmts increment_i (counting_state k) = Inr (counting_state (k + 1))"
  by (simp add: increment_i_def counting_state_def Interpreter_init_def execute_assign_def
        binary_op_def py_add_def)

lemma repeat_increment_i:
  "repeat_body increment_i n (counting_state k) = Inr (counting_state (k + int n))"
proof (induction n arbitrary: k)
  case 0
  then show ?case by simp
next
  case (Suc n)
  have "k + 1 + int n = k + int (Suc n)" by simp
  with Suc [of "k + 1"] show ?case by (simp add: increment_i_step)
qed

lemma holds_Literal_True: "holds (Literal (VBool True)) s"
  by (simp add: holds_def)

lemma i_less_3:
  "holds (BinaryExpr ''<'' (Identifier ''i'') (Literal (VInt 3))) (counting_state k) = (k < 3)"
  "fails (BinaryExpr ''<'' (Identifier ''i'') (Literal (VInt 3))) (counting_state k) = (\<not> k < 3)"
  by (simp_all add: holds_def fails_def counting_state_def Interpreter_init_def binary_op_def
        py_compare_def)

theorem while_iteration_cap_witness:
  "execute_stmt (WhileStmt (Literal (VBool True)) increment_i) (counting_state 0) =
     Inl (InfiniteLoopDetected, counting_state 10000) \<and>
   execute_stmt (WhileStmt (BinaryExpr ''<'' (Identifier ''i'') (Literal (VInt 3))) increment_i)
     (counting_state 0) = Inr (counting_state 3)"
proof
  have "\<forall>k\<le>10000. \<exists>s. repeat_body increment_i k (counting_state 0) = Inr s \<and>
          holds (Literal (VBool True)) s"
    by (simp add: repeat_increment_i holds_Literal_True)
  with while_iteration_cap [of increment_i "counting_state 0" "Literal (VBool True)"]
  show "execute_stmt (WhileStmt (Literal (VBool True)) increment_i) (counting_state 0) =
     Inl (InfiniteLoopDetected, counting_state 10000)"
    by (simp add: repeat_increment_i)
next
  let ?t = "BinaryExpr ''<'' (Identifier ''i'') (Literal (VInt 3))"
  have "(3::nat) \<le> 10000 \<and>
        (\<forall>k<3. \<exists>s. repeat_body increment_i k (counting_state 0) = Inr s \<and> holds ?t s) \<and>
        repeat_body increment_i 3 (counting_state 0) = Inr (counting_state 3) \<and>
        fails ?t (counting_state 3)"
    by (simp add: repeat_increment_i i_less_3)
  with while_iteration_cap [of increment_i "counting_state 0" ?t 3 "counting_state 3"]
  show "execute_stmt (WhileStmt ?t increment_i) (counting_state 0) = Inr (counting_state 3)"
    by blast
qed

text \<open>
  The claim as stated speaks of every loop whose test is always true. It fails when the
  body raises: \<^verbatim>\<open>while (true) { move; }\<close> on the fresh 5 by 5 grid, the agent at (0, 0)
  facing north, stops in its first iteration with the off-grid error.
\<close>

theorem while_true_aborts_on_failing_body:
  "holds (Literal (VBool True)) (Interpreter_init\<lparr>grid := Some (GridWorld_init 5 5)\<rparr>) \<and>
   execute_stmt (WhileStmt (Literal (VBool True)) [ActionStmt ''move''])
     (Interpreter_init\<lparr>grid := Some (GridWorld_init 5 5)\<rparr>) =
   Inl (CannotMoveOffGrid 0 (- 1), Interpreter_init\<lparr>grid := Some (GridWorld_init 5 5)\<rparr>)"
proof -
  have m: "move (GridWorld_init 5 5) = Inl (CannotMoveOffGrid 0 (- 1), GridWorld_init 5 5)"
    by (simp add: move_def GridWorld_init_def)
  show ?thesis
    by (simp add: holds_Literal_True execute_while_def while_loop_unfold_true
          max_iterations_def execute_action_def on_grid_def m Interpreter_init_def)
qed

subsection \<open>Division\<close>

lemma floor_div: "\<lfloor>real_of_int a / real_of_int b\<rfloor> = a div b"
  by (rule floor_divide_of_int_eq)

text \<open>
  C6. When the left operand of \<^verbatim>\<open>/\<close> has a value and the right operand evaluates to 0,
  the evaluation raises the division-by-zero error. When the value expression of an
  \<open>Assign\<close> raises it, the statement raises with the interpreter unchanged, so the
  target's binding is as before (and the error is the division by zero itself unless
  the target is a constant, which is refused first). On integers with a divisor other
  than 0, \<^verbatim>\<open>/\<close> gives the floor of the quotient.
\<close>

theorem division_by_zero_precedes_assignment:
  "(evaluate_expr st l = Inr lv \<and> evaluate_expr st r = Inr (VInt 0) \<longrightarrow>
      evaluate_expr st (BinaryExpr ''/'' l r) = Inl DivisionByZero) \<and>
   (evaluate_expr st e = Inl DivisionByZero \<longrightarrow>
      (\<exists>err. execute_stmt (Assign name e) st = Inl (err, st)) \<and>
      (name \<notin> const_vars st \<longrightarrow> execute_stmt (Assign name e) st = Inl (DivisionByZero, st))) \<and>
   (evaluate_expr st l = Inr (VInt a) \<and> evaluate_expr st r = Inr (VInt b) \<and> b \<noteq> 0 \<longrightarrow>
      evaluate_expr st (BinaryExpr ''/'' l r) = Inr (VInt \<lfloor>real_of_int a / real_of_int b\<rfloor>))"
  by (simp add: binary_op_def py_eq_def py_floordiv_def execute_assign_def floor_div)

theorem division_by_zero_precedes_assignment_witness:
  "evaluate_expr x_is_7 (BinaryExpr ''/'' (Identifier ''x'') (Literal (VInt 0))) =
     Inl DivisionByZero \<and>
   execute_stmt (Assign ''x'' (BinaryExpr ''/'' (Identifier ''x'') (Literal (VInt 0)))) x_is_7 =
     Inl (DivisionByZero, x_is_7) \<and>
   Environment_get (env x_is_7) ''x'' = Inr (VInt 7) \<and>
   evaluate_expr x_is_7 (BinaryExpr ''/'' (Literal (VInt (- 7))) (Literal (VInt 2))) =
     Inr (VInt (- 4))"
proof -
  have x: "evaluate_expr x_is_7 (Identifier ''x'') = Inr (VInt 7)"
    by (simp add: x_is_7_def Interpreter_init_def)
  have z: "evaluate_expr x_is_7 (Literal (VInt 0)) = Inr (VInt 0)" by simp
  have c: "''x'' \<notin> const_vars x_is_7" by (simp add: x_is_7_def Interpreter_init_def)
  have d: "evaluate_expr x_is_7 (BinaryExpr ''/'' (Identifier ''x'') (Literal (VInt 0))) =
     Inl DivisionByZero"
    using division_by_zero_precedes_assignment
      [of x_is_7 "Identifier ''x''" "VInt 7" "Literal (VInt 0)"] x z by blast
  have a: "execute_stmt (Assign ''x'' (BinaryExpr ''/'' (Identifier ''x'') (Literal (VInt 0)))) x_is_7 =
     Inl (DivisionByZero, x_is_7)"
    using division_by_zero_precedes_assignment
      [of x_is_7 _ _ _ "BinaryExpr ''/'' (Identifier ''x'') (Literal (VInt 0))" "''x''"] d c
    by blast
  have f: "evaluate_expr x_is_7 (BinaryExpr ''/'' (Literal (VInt (- 7))) (Literal (VInt 2))) =
     Inr (VInt \<lfloor>real_of_int (- 7) / real_of_int 2\<rfloor>)"
    using division_by_zero_precedes_assignment
      [of x_is_7 "Literal (VInt (- 7))" _ "Literal (VInt 2)" _ _ "- 7" 2]
    by simp
  have "\<lfloor>real_of_int (- 7) / real_of_int 2\<rfloor> = (- 4 :: int)"
    by (simp add: floor_div)
  with d a f x show ?thesis by simp
qed


section \<open>Properties of the converter\<close>

lemma flatten_expression_literal_term:
  "flatten_expression (literal_term v) = Inr (Literal (literal_value v))"
  unfolding literal_term_def factor_term_def terminal_def
  by (subst flatten_expression.simps, simp add: child_def value_of_def,
      subst flatten_expression.simps, simp add: child_def value_of_def)

lemma literal_values:
  "literal_value ''1'' = VInt 1" "literal_value ''2'' = VInt 2"
  "literal_value ''5'' = VInt 5" "literal_value ''6'' = VInt 6"
  by (simp_all add: literal_value_def isdigit_def int_of_str_def)

text \<open>
  C1. Take an \<^verbatim>\<open>EXPRESSION\<close> or \<^verbatim>\<open>TERM\<close> node (any node that is not a \<^verbatim>\<open>FACTOR\<close>) whose
  tail holds an operator, a second operand and then anything at all, \<open>rest\<close>: the nested
  tail with the further operators and operands of the chain. Its flattening is the
  binary expression of the operator, the flattened first operand and the flattened
  second operand; \<open>rest\<close> does not occur in it, so everything after the second operand is
  dropped. In particular \<^verbatim>\<open>1 + 2 + 3\<close> converts to \<^verbatim>\<open>1 + 2\<close>, which evaluates to 3, not 6.
\<close>

theorem flatten_expression_drops_chain:
  assumes "t \<noteq> ''FACTOR''"
  shows "flatten_expression
           (CSTNode t v
              [first, CSTNode tail_t tail_v (CSTNode op_t op_v [terminal operator] # second # rest)]) =
         (case flatten_expression first of
            Inl e \<Rightarrow> Inl e
          | Inr left \<Rightarrow>
              (case flatten_expression second of
                 Inl e \<Rightarrow> Inl e
               | Inr right \<Rightarrow> Inr (BinaryExpr operator left right))) \<and>
         flatten_expression cst_1_plus_2_plus_3 =
           Inr (BinaryExpr ''+'' (Literal (VInt 1)) (Literal (VInt 2))) \<and>
         evaluate_expr st (BinaryExpr ''+'' (Literal (VInt 1)) (Literal (VInt 2))) = Inr (VInt 3)"
proof (intro conjI)
  show "flatten_expression
           (CSTNode t v
              [first, CSTNode tail_t tail_v (CSTNode op_t op_v [terminal operator] # second # rest)]) =
         (case flatten_expression first of
            Inl e \<Rightarrow> Inl e
          | Inr left \<Rightarrow>
              (case flatten_expression second of
                 Inl e \<Rightarrow> Inl e
               | Inr right \<Rightarrow> Inr (BinaryExpr operator left right)))"
    using assms
    by (subst flatten_expression.simps)
       (simp add: child_def value_of_def terminal_def split: sum.splits)
  show "flatten_expression cst_1_plus_2_plus_3 =
           Inr (BinaryExpr ''+'' (Literal (VInt 1)) (Literal (VInt 2)))"
    unfolding cst_1_plus_2_plus_3_def
    by (subst flatten_expression.simps)
       (simp add: child_def value_of_def terminal_def flatten_expression_literal_term
          literal_values)
  show "evaluate_expr st (BinaryExpr ''+'' (Literal (VInt 1)) (Literal (VInt 2))) = Inr (VInt 3)"
    by (simp add: binary_op_def py_add_def)
qed

theorem flatten_expression_drops_chain_witness:
  "''EXPRESSION'' \<noteq> ''FACTOR'' \<and>
   flatten_expression cst_1_plus_2_plus_3 =
     Inr (BinaryExpr ''+'' (Literal (VInt 1)) (Literal (VInt 2))) \<and>
   evaluate_expr Interpreter_init (BinaryExpr ''+'' (Literal (VInt 1)) (Literal (VInt 2))) =
     Inr (VInt 3) \<and>
   evaluate_expr Interpreter_init (BinaryExpr ''+'' (Literal (VInt 1)) (Literal (VInt 2))) \<noteq>
     Inr (VInt 6)"
proof -
  have h: "''EXPRESSION'' \<noteq> ''FACTOR''" by simp
  from flatten_expression_drops_chain
    [OF h, of None "literal_term ''1''" "''EXPRESSION_TAIL''" None "''ADD_OP''" None "''+''"
       "literal_term ''2''"
       "[CSTNode ''EXPRESSION_TAIL'' None
           [CSTNode ''ADD_OP'' None [terminal ''+''], literal_term ''3'',
            CSTNode ''EXPRESSION_TAIL'' None []]]" Interpreter_init]
  show ?thesis
    by (simp add: cst_1_plus_2_plus_3_def flatten_expression_literal_term literal_values)
qed

section \<open>Properties of the semantic analysis\<close>

lemma resolve_expr_keeps: "set errors \<subseteq> set (resolve_expr e scope errors)"
proof (induction e arbitrary: errors)
  case (BinaryExpr operator l r)
  have "set errors \<subseteq> set (resolve_expr l scope errors)" by (rule BinaryExpr.IH(1))
  also have "\<dots> \<subseteq> set (resolve_expr r scope (resolve_expr l scope errors))"
    by (rule BinaryExpr.IH(2))
  finally show ?case by simp
qed auto

lemma resolve_expr_sense:
  assumes "Scope_resolve scope ''sense'' = None"
  shows "mentions_sense e \<Longrightarrow> undefined_sense \<in> set (resolve_expr e scope errors)"
proof (induction e arbitrary: errors)
  case (Identifier n)
  with assms show ?case by (simp add: undefined_sense_def)
next
  case (BinaryExpr operator l r)
  from BinaryExpr.prems consider "mentions_sense l" | "mentions_sense r" by auto
  then show ?case
  proof cases
    case 1
    then have "undefined_sense \<in> set (resolve_expr l scope errors)" by (rule BinaryExpr.IH(1))
    with resolve_expr_keeps [of "resolve_expr l scope errors" r scope] show ?thesis by auto
  next
    case 2
    then show ?thesis by (simp add: BinaryExpr.IH(2))
  qed
qed simp_all

lemma check_keeps:
  "check_statement s scope errors = Inr errors' \<Longrightarrow> set errors \<subseteq> set errors'"
  "check_statements ss scope errors = Inr errors' \<Longrightarrow> set errors \<subseteq> set errors'"
proof (induction s scope errors and ss scope errors arbitrary: errors' and errors'
       rule: check_statement_check_statements.induct)
  case (1 target v scope errors)
  have "set errors \<subseteq> set (case Scope_resolve scope target of
          None \<Rightarrow>
            errors @ [\<lparr>code = ''E_UNDEFINED'', msg = ''Undefined variable: '' @ target\<rparr>]
        | Some symbol \<Rightarrow>
            if category symbol = ''const''
            then errors @ [\<lparr>code = ''E_CONST_ASSIGN'', msg = ''Cannot reassign constant: '' @ target\<rparr>]
            else errors)"
    by (auto split: option.splits)
  with resolve_expr_keeps 1 show ?case by fastforce
next
  case (3 test consequent alternate scope errors)
  from "3.prems" obtain e1 where
    c: "check_statements consequent scope (resolve_expr test scope errors) = Inr e1"
    by (auto split: sum.splits)
  from "3.IH"(1) [OF c] resolve_expr_keeps [of errors test scope]
  have k: "set errors \<subseteq> set e1" by blast
  show ?case
  proof (cases "\<exists>alt. alternate = Some alt \<and> alt \<noteq> []")
    case True
    then obtain alt where a: "alternate = Some alt" "alt \<noteq> []" by blast
    with "3.prems" c have "check_statements alt scope e1 = Inr errors'" by simp
    from "3.IH"(2) [OF c a this] k show ?thesis by blast
  next
    case False
    with "3.prems" c have "errors' = e1" by (auto split: option.splits if_splits)
    with k show ?thesis by simp
  qed
next
  case (4 test body scope errors)
  from "4.IH" [of errors'] "4.prems" resolve_expr_keeps [of errors test scope]
  show ?case by auto
next
  case (11 s ss scope errors)
  from "11.prems" obtain e1 where c: "check_statement s scope errors = Inr e1"
    and r: "check_statements ss scope e1 = Inr errors'"
    by (auto split: sum.splits)
  from "11.IH"(1) [OF c] "11.IH"(2) [OF c r] show ?case by blast
qed auto

lemma check_sense:
  assumes "Scope_resolve scope ''sense'' = None"
  shows "check_statement s scope errors = Inr errors' \<Longrightarrow> sense_in_stmt s \<Longrightarrow>
           undefined_sense \<in> set errors'"
    and "check_statements ss scope errors = Inr errors' \<Longrightarrow> sense_in_stmts ss \<Longrightarrow>
           undefined_sense \<in> set errors'"
  using assms
proof (induction s scope errors and ss scope errors arbitrary: errors' and errors'
       rule: check_statement_check_statements.induct)
  case (1 target v scope errors)
  then show ?case by (auto simp: resolve_expr_sense)
next
  case (3 test consequent alternate scope errors)
  from "3.prems"(1) obtain e1 where
    c: "check_statements consequent scope (resolve_expr test scope errors) = Inr e1"
    by (auto split: sum.splits)
  have k1: "set (resolve_expr test scope errors) \<subseteq> set e1" by (rule check_keeps(2) [OF c])
  have k2: "set e1 \<subseteq> set errors'"
  proof (cases "\<exists>alt. alternate = Some alt \<and> alt \<noteq> []")
    case True
    then obtain alt where a: "alternate = Some alt" "alt \<noteq> []" by blast
    with "3.prems"(1) c have "check_statements alt scope e1 = Inr errors'" by simp
    then show ?thesis by (rule check_keeps(2))
  next
    case False
    with "3.prems"(1) c have "errors' = e1" by (auto split: option.splits if_splits)
    then show ?thesis by simp
  qed
  from "3.prems"(2) consider "mentions_sense test" | "sense_in_stmts consequent"
    | alt where "alternate = Some alt" "sense_in_stmts alt"
    by (auto split: option.splits)
  then show ?case
  proof cases
    case 1
    with resolve_expr_sense [OF "3.prems"(3)] k1 k2 show ?thesis by blast
  next
    case 2
    from "3.IH"(1) [OF c 2 "3.prems"(3)] k2 show ?thesis by blast
  next
    case 3
    then have ne: "alt \<noteq> []" by auto
    with "3.prems"(1) c 3 have "check_statements alt scope e1 = Inr errors'" by simp
    from "3.IH"(2) [OF c 3(1) ne this 3(2) "3.prems"(3)] show ?thesis .
  qed
next
  case (4 test body scope errors)
  from "4.prems"(1) have c: "check_statements body scope (resolve_expr test scope errors) = Inr errors'"
    by simp
  from "4.prems"(2) consider "mentions_sense test" | "sense_in_stmts body" by auto
  then show ?case
  proof cases
    case 1
    with resolve_expr_sense [OF "4.prems"(3)] check_keeps(2) [OF c] show ?thesis by blast
  next
    case 2
    from "4.IH" [OF c 2 "4.prems"(3)] show ?thesis .
  qed
next
  case (11 s ss scope errors)
  from "11.prems"(1) obtain e1 where c: "check_statement s scope errors = Inr e1"
    and r: "check_statements ss scope e1 = Inr errors'"
    by (auto split: sum.splits)
  from "11.prems"(2) consider "sense_in_stmt s" | "sense_in_stmts ss" by auto
  then show ?case
  proof cases
    case 1
    from "11.IH"(1) [OF c 1 "11.prems"(3)] check_keeps(2) [OF r] show ?thesis by blast
  next
    case 2
    from "11.IH"(2) [OF c r 2 "11.prems"(3)] show ?thesis .
  qed
qed simp_all

lemma Scope_declare_other:
  "Scope_declare scope m cat ty = Inr scope' \<Longrightarrow> n \<noteq> m \<Longrightarrow>
   Scope_resolve scope' n = Scope_resolve scope n"
  by (cases scope) (auto split: if_splits)

lemma declare_statement_other:
  "declare_statement cat m ty scope errors = (scope', errors') \<Longrightarrow> n \<noteq> m \<Longrightarrow>
   Scope_resolve scope' n = Scope_resolve scope n"
  by (auto simp: declare_statement_def split: sum.splits dest: Scope_declare_other)

lemma declaration_pass_undeclared:
  "declaration_pass ss scope errors = Inr (scope', errors') \<Longrightarrow>
   n \<notin> set (declared_names ss) \<Longrightarrow> Scope_resolve scope' n = Scope_resolve scope n"
proof (induction ss scope errors rule: declaration_pass.induct)
  case (2 m ty v ss scope errors)
  obtain s1 e1 where d: "declare_statement ''const'' m ty scope errors = (s1, e1)"
    by (cases "declare_statement ''const'' m ty scope errors")
  with 2 declare_statement_other [OF d, of n] show ?case by simp
next
  case (3 m ty v ss scope errors)
  obtain s1 e1 where d: "declare_statement ''var'' m ty scope errors = (s1, e1)"
    by (cases "declare_statement ''var'' m ty scope errors")
  with 3 declare_statement_other [OF d, of n] show ?case by simp
qed simp_all

lemma convert_const_x_then_assign:
  "convert_cst_to_ast const_x_then_assign =
     Inr (Some \<lparr>program_name = ''p'',
                 program_body = [ConstDecl ''x'' ''int'' (Literal (VInt 5)),
                                 Assign ''x'' (Literal (VInt 6))]\<rparr>)"
  by code_simp

lemma convert_var_b_is_sense:
  "convert_cst_to_ast var_b_is_sense =
     Inr (Some \<lparr>program_name = ''p'',
                 program_body = [VarDecl ''b'' ''bool'' (Identifier ''sense'')]\<rparr>)"
  by code_simp

lemma convert_while_sense_clean:
  "convert_cst_to_ast while_sense_clean =
     Inr (Some \<lparr>program_name = ''p'',
                 program_body = [WhileStmt (Identifier ''sense'') [ActionStmt ''clean'']]\<rparr>)"
  by code_simp

text \<open>
  C4. The program that declares \<^verbatim>\<open>const x : int = 5;\<close> and then has the statement
  \<^verbatim>\<open>x = 6;\<close> converts to a constant declaration and an assignment; the analysis of
  this body returns exactly one diagnostic, with the code \<^verbatim>\<open>E_CONST_ASSIGN\<close>, whatever
  the program is called; and the pipeline stops with it, without interpreting the program.
\<close>

theorem const_assign_fails_closed:
  "convert_cst_to_ast const_x_then_assign =
     Inr (Some \<lparr>program_name = ''p'',
                 program_body = [ConstDecl ''x'' ''int'' (Literal (VInt 5)),
                                 Assign ''x'' (Literal (VInt 6))]\<rparr>) \<and>
   analyze (Some \<lparr>program_name = n,
                   program_body = [ConstDecl ''x'' ''int'' (Literal (VInt 5)),
                                   Assign ''x'' (Literal (VInt 6))]\<rparr>) =
     Inr [\<lparr>code = ''E_CONST_ASSIGN'', msg = ''Cannot reassign constant: x''\<rparr>] \<and>
   main_from_cst const_x_then_assign =
     SemanticErrors [\<lparr>code = ''E_CONST_ASSIGN'', msg = ''Cannot reassign constant: x''\<rparr>]"
proof -
  have a: "analyze (Some \<lparr>program_name = m,
                   program_body = [ConstDecl ''x'' ''int'' (Literal (VInt 5)),
                                   Assign ''x'' (Literal (VInt 6))]\<rparr>) =
     Inr [\<lparr>code = ''E_CONST_ASSIGN'', msg = ''Cannot reassign constant: x''\<rparr>]" for m
    by (simp add: analyze_def declare_statement_def)
  with convert_const_x_then_assign show ?thesis
    by (simp add: main_from_cst_def)
qed

text \<open>
  C10 (as amended). In an AST without a declaration named \<^verbatim>\<open>sense\<close>, let the identifier
  \<^verbatim>\<open>sense\<close> occur in the value of an assignment or in the test of an if or a while, at
  any depth. Then the analysis, when it returns, returns the diagnostic \<^verbatim>\<open>E_UNDEFINED\<close>
  for \<^verbatim>\<open>sense\<close> (it does not return when it meets a nested block or \<^verbatim>\<open>None\<close> among the
  statements), and in both cases the pipeline does not interpret the program.
\<close>

theorem sense_in_resolved_expression_is_undefined:
  assumes "''sense'' \<notin> set (declared_names (program_body p))"
    and "sense_in_stmts (program_body p)"
  shows "((\<exists>e. analyze (Some p) = Inl e) \<or>
          (\<exists>errors. analyze (Some p) = Inr errors \<and>
             \<lparr>code = ''E_UNDEFINED'', msg = ''Undefined identifier: sense''\<rparr> \<in> set errors)) \<and>
         (convert_cst_to_ast c = Inr (Some p) \<longrightarrow> (\<forall>r. main_from_cst c \<noteq> Interpreted r))"
proof -
  have an: "undefined_sense \<in> set errors" if "analyze (Some p) = Inr errors" for errors
  proof -
    from that obtain global_scope errors0 where
      d: "declaration_pass (program_body p) (Scope None 0 Map.empty) [] = Inr (global_scope, errors0)"
      and c: "check_statements (program_body p) global_scope errors0 = Inr errors"
      by (auto simp: analyze_def split: sum.splits)
    from declaration_pass_undeclared [OF d assms(1)]
    have "Scope_resolve global_scope ''sense'' = None" by simp
    from check_sense(2) [OF this c assms(2)] show ?thesis .
  qed
  have first: "(\<exists>e. analyze (Some p) = Inl e) \<or>
          (\<exists>errors. analyze (Some p) = Inr errors \<and>
             \<lparr>code = ''E_UNDEFINED'', msg = ''Undefined identifier: sense''\<rparr> \<in> set errors)"
  proof (cases "analyze (Some p)")
    case (Inl e)
    then show ?thesis by simp
  next
    case (Inr errors)
    with an [OF Inr] show ?thesis by (simp add: undefined_sense_def)
  qed
  have second: "main_from_cst c \<noteq> Interpreted r" if "convert_cst_to_ast c = Inr (Some p)" for r
  proof (cases "analyze (Some p)")
    case (Inl e)
    with that show ?thesis by (simp add: main_from_cst_def)
  next
    case (Inr errors)
    from an [OF Inr] have "errors \<noteq> []" by auto
    with that Inr show ?thesis by (simp add: main_from_cst_def)
  qed
  from first second show ?thesis by blast
qed

theorem sense_in_resolved_expression_is_undefined_witness:
  "''sense'' \<notin> set (declared_names [WhileStmt (Identifier ''sense'') [ActionStmt ''clean'']]) \<and>
   sense_in_stmts [WhileStmt (Identifier ''sense'') [ActionStmt ''clean'']] \<and>
   convert_cst_to_ast while_sense_clean =
     Inr (Some \<lparr>program_name = ''p'',
                 program_body = [WhileStmt (Identifier ''sense'') [ActionStmt ''clean'']]\<rparr>) \<and>
   analyze (Some \<lparr>program_name = ''p'',
                   program_body = [WhileStmt (Identifier ''sense'') [ActionStmt ''clean'']]\<rparr>) =
     Inr [\<lparr>code = ''E_UNDEFINED'', msg = ''Undefined identifier: sense''\<rparr>] \<and>
   main_from_cst while_sense_clean =
     SemanticErrors [\<lparr>code = ''E_UNDEFINED'', msg = ''Undefined identifier: sense''\<rparr>] \<and>
   main_from_cst while_sense_clean \<noteq>
     Interpreted (Inr (Interpreter_init\<lparr>grid := Some (GridWorld_init 5 5)\<rparr>))"
proof -
  let ?p = "\<lparr>program_name = ''p'',
              program_body = [WhileStmt (Identifier ''sense'') [ActionStmt ''clean'']]\<rparr>"
  have h1: "''sense'' \<notin> set (declared_names (program_body ?p))" by simp
  have h2: "sense_in_stmts (program_body ?p)" by simp
  have a: "analyze (Some ?p) =
     Inr [\<lparr>code = ''E_UNDEFINED'', msg = ''Undefined identifier: sense''\<rparr>]"
    by (simp add: analyze_def)
  have m: "main_from_cst while_sense_clean =
     SemanticErrors [\<lparr>code = ''E_UNDEFINED'', msg = ''Undefined identifier: sense''\<rparr>]"
    using a convert_while_sense_clean by (simp add: main_from_cst_def)
  from sense_in_resolved_expression_is_undefined [OF h1 h2, of while_sense_clean]
    convert_while_sense_clean
  have "\<forall>r. main_from_cst while_sense_clean \<noteq> Interpreted r" by blast
  with h1 h2 a m convert_while_sense_clean show ?thesis by simp
qed

text \<open>
  The claim as stated speaks of \<^verbatim>\<open>sense\<close> anywhere in an expression. It fails for the
  initialiser of a declaration: for \<^verbatim>\<open>var b : bool = sense;\<close> the analysis returns no
  diagnostic, and the interpreter runs the program and evaluates \<^verbatim>\<open>sense\<close> on the grid.
\<close>

theorem sense_in_initialiser_reaches_interpreter:
  "analyze (Some \<lparr>program_name = ''p'',
                   program_body = [VarDecl ''b'' ''bool'' (Identifier ''sense'')]\<rparr>) = Inr [] \<and>
   main_from_cst var_b_is_sense =
     Interpreted (Inr \<lparr>env = Environment (Map.empty(''b'' \<mapsto> VBool False)) None,
                        grid = Some (GridWorld_init 5 5), const_vars = {}\<rparr>)"
proof -
  have a: "analyze (Some \<lparr>program_name = ''p'',
                   program_body = [VarDecl ''b'' ''bool'' (Identifier ''sense'')]\<rparr>) = Inr []"
    by (simp add: analyze_def declare_statement_def)
  have s: "sense (GridWorld_init 5 5) = False"
    by (simp add: sense_def GridWorld_init_def)
  from a convert_var_b_is_sense s show ?thesis
    by (simp add: main_from_cst_def run_def execute_var_decl_def Interpreter_init_def)
qed

end
